theory Spec2Isabelle
  imports Complex_Main
begin

section \<open>N-Attune: signal fusion and the calm commit machine (script.js)\<close>

text \<open>
  A shallow embedding of the detection, suggestion, commit and log code of
  \<^verbatim>\<open>src/script.js\<close>. The program keeps one global object \<^verbatim>\<open>state\<close>; here it is
  a record that every function takes and returns. Conventions:
  \<^item> JavaScript numbers that hold scores and coordinates are modelled as \<^typ>\<open>real\<close>
    (IEEE rounding and NaN are not modelled); values of \<^verbatim>\<open>Date.now()\<close> are \<^typ>\<open>int\<close>
    milliseconds.
  \<^item> Every read of the clock is an input. One handler reads the clock in several
    places; the record \<open>clock\<close> holds one field per place.
  \<^item> \<^verbatim>\<open>null\<close> is \<open>None\<close>; where the code does arithmetic or a comparison on a
    possibly-null field, \<open>toNumber\<close> writes out the coercion of \<^verbatim>\<open>null\<close> to 0.
  \<^item> An array read out of range yields \<^verbatim>\<open>undefined\<close> and a property read on
    \<^verbatim>\<open>undefined\<close> throws a TypeError: the landmark array is a partial map and the
    throw is the \<open>Thrown\<close> outcome, which carries the state as it was at the throw.
  \<^item> Calls of the sink wrappers \<^verbatim>\<open>playChime()\<close> and \<^verbatim>\<open>speak(text)\<close> are appended to
    the trace \<open>sinks\<close>. Writes that only paint the page (signal bars, emotion
    indicator, CSS classes, the deferred output text, vibration) and the console
    logging with its two once-only flags are left out: no modelled field reads them.
    The stability indicator and the suggestion text are kept, as the visible phase
    of the commit machine; what the page shows in them before the first tick is
    not in \<^verbatim>\<open>script.js\<close> and is taken to be the placeholder.
  \<^item> \<^verbatim>\<open>localStorage\<close> maps a log key to the list of entries whose JSON text the
    program stores there; serialising and parsing are not modelled.
\<close>

subsection \<open>Configuration (CONFIG)\<close>

definition STABILITY_TIME :: int where "STABILITY_TIME = 800"
definition LOCK_TIME :: int where "LOCK_TIME = 4000"
definition TTS_COOLDOWN :: int where "TTS_COOLDOWN = 4000"
definition REPEAT_COOLDOWN :: int where "REPEAT_COOLDOWN = 10000"
definition SMILE_THRESHOLD :: real where "SMILE_THRESHOLD = 0.3"
definition MOUTH_OPEN_THRESHOLD :: real where "MOUTH_OPEN_THRESHOLD = 0.15"
definition SOUND_SPIKE_THRESHOLD :: real where "SOUND_SPIKE_THRESHOLD = 0.4"
definition NOD_THRESHOLD :: real where "NOD_THRESHOLD = 0.015"
definition SHAKE_THRESHOLD :: real where "SHAKE_THRESHOLD = 0.02"
definition GESTURE_FRAMES :: nat where "GESTURE_FRAMES = 10"
definition MAX_LOG_ITEMS :: nat where "MAX_LOG_ITEMS = 50"
definition STORAGE_PREFIX :: string where "STORAGE_PREFIX = ''nattune_''"

subsection \<open>Data\<close>

datatype gesture = Still | Nod | Shake

datatype emotion = Happy | Sad | Surprised | Neutral

datatype tone = ToneNeutral | TonePositive | ToneSad | ToneSurprised | ToneDistress

datatype msg_type = Signal | Mood | Need

record emotion_scores =
  happy :: real
  sad :: real
  surprised :: real
  neutral :: real

record nose_sample =
  nx :: real
  ny :: real
  ntime :: int

record log_entry =
  entry_id :: int
  entry_message :: string
  entry_type :: msg_type
  entry_timestamp :: int
  entry_patient :: "string option"

text \<open>What the page shows next to the output: \<^verbatim>\<open>Waiting for signal...\<close>,
  \<^verbatim>\<open>Stabilizing...\<close> (with a percentage once the candidate repeats) and
  \<^verbatim>\<open>Output locked\<close>.\<close>

datatype stability_display = DisplayWaiting | DisplayStabilizing "int option" | DisplayLocked

datatype sink_call = Chime | Speak string

record state =
  currentPatient :: "string option"
  cameraRunning :: bool
  faceLandmarker :: bool
  lastVideoTime :: real
  micRunning :: bool
  soundLevel :: real
  smileScore :: real
  mouthOpenScore :: real
  movementScore :: real
  headGesture :: gesture
  noseHistory :: "nose_sample list"
  currentEmotion :: emotion
  emotionScores :: emotion_scores
  browScore :: real
  eyeOpenScore :: real
  currentSuggestion :: "string option"
  suggestionStartTime :: "int option"
  isLocked :: bool
  lockEndTime :: "int option"
  lastTTSTime :: int
  lastTTSMessage :: "string option"
  signalTone :: tone
  conversationLog :: "log_entry list"
  soundEnabled :: bool
  localStorage :: "string \<Rightarrow> log_entry list option"
  sinks :: "sink_call list"
  suggestionText :: string
  stability :: stability_display

text \<open>The readings of the clock one handler takes, in the order of the source:
  the nose sample's time and the cut-off of the history (\<^verbatim>\<open>processResults\<close>),
  \<^verbatim>\<open>updateSuggestion\<close>, \<^verbatim>\<open>commitMessage\<close>, and the id and timestamp of the log
  entry (\<^verbatim>\<open>addToLog\<close>).\<close>

record clock =
  t_nose :: int
  t_cutoff :: int
  t_suggest :: int
  t_commit :: int
  t_entry_id :: int
  t_entry_iso :: int

record point =
  px :: real
  py :: real

type_synonym landmarks = "nat \<Rightarrow> point option"

record category =
  categoryName :: string
  score :: real

text \<open>A detection result: the faces' landmark arrays and the faces' blendshape
  categories. A missing array and an empty one are both \<open>[]\<close>: the code treats
  them alike.\<close>

record detection =
  faceLandmarks :: "landmarks list"
  faceBlendshapes :: "category list list"

datatype js_error = TypeError

datatype outcome = Normal state | Thrown js_error state

record video =
  readyState :: nat
  currentTime :: real

datatype perception = DetectThrows | Detected "detection option"

subsection \<open>The initial state\<close>

definition dash :: string where
  "dash = [CHR 0xE2, CHR 0x80, CHR 0x94]"

definition initial_state :: state where
  "initial_state =
     \<lparr> currentPatient = None, cameraRunning = False, faceLandmarker = False,
       lastVideoTime = -1, micRunning = False, soundLevel = 0,
       smileScore = 0, mouthOpenScore = 0, movementScore = 0, headGesture = Still,
       noseHistory = [], currentEmotion = Neutral,
       emotionScores = \<lparr> happy = 0, sad = 0, surprised = 0, neutral = 0 \<rparr>,
       browScore = 0, eyeOpenScore = 0,
       currentSuggestion = None, suggestionStartTime = None,
       isLocked = False, lockEndTime = None,
       lastTTSTime = 0, lastTTSMessage = None,
       signalTone = ToneNeutral, conversationLog = [], soundEnabled = True,
       localStorage = (\<lambda>k. None), sinks = [],
       suggestionText = dash, stability = DisplayWaiting \<rparr>"

fun toNumber :: "int option \<Rightarrow> int" where
  "toNumber None = 0"
| "toNumber (Some n) = n"

fun state_of :: "outcome \<Rightarrow> state" where
  "state_of (Normal s) = s"
| "state_of (Thrown e s) = s"

subsection \<open>Conversation log\<close>

definition log_key :: "state \<Rightarrow> string" where
  "log_key st =
     STORAGE_PREFIX @ ''log_'' @ (case currentPatient st of None \<Rightarrow> ''null'' | Some p \<Rightarrow> p)"

text \<open>\<^verbatim>\<open>xs.slice(-n)\<close>: the last \<open>n\<close> elements, all of them when there are fewer.\<close>

definition slice_last :: "nat \<Rightarrow> 'a list \<Rightarrow> 'a list" where
  "slice_last n xs = drop (length xs - n) xs"

definition loadPatientLog :: "state \<Rightarrow> state" where
  "loadPatientLog st =
     st\<lparr>conversationLog :=
          (case localStorage st (log_key st) of None \<Rightarrow> [] | Some saved \<Rightarrow> saved)\<rparr>"

definition savePatientLog :: "state \<Rightarrow> state" where
  "savePatientLog st =
     st\<lparr>localStorage :=
          (localStorage st)(log_key st := Some (slice_last MAX_LOG_ITEMS (conversationLog st)))\<rparr>"

definition new_entry :: "clock \<Rightarrow> string \<Rightarrow> msg_type \<Rightarrow> state \<Rightarrow> log_entry" where
  "new_entry clk message type st =
     \<lparr> entry_id = t_entry_id clk, entry_message = message, entry_type = type,
       entry_timestamp = t_entry_iso clk, entry_patient = currentPatient st \<rparr>"

definition addToLog :: "clock \<Rightarrow> string \<Rightarrow> msg_type \<Rightarrow> state \<Rightarrow> state" where
  "addToLog clk message type st =
     (let entry = new_entry clk message type st;
          unshifted = entry # conversationLog st;
          limited = (if length unshifted > MAX_LOG_ITEMS
                     then take MAX_LOG_ITEMS unshifted else unshifted)
      in savePatientLog (st\<lparr>conversationLog := limited\<rparr>))"

text \<open>\<^verbatim>\<open>clearLog\<close> asks for confirmation first; the answer is the first argument.\<close>

definition clearLog :: "bool \<Rightarrow> state \<Rightarrow> state" where
  "clearLog confirmed st =
     (if \<not> confirmed then st else savePatientLog (st\<lparr>conversationLog := []\<rparr>))"

subsection \<open>Commit system\<close>

definition speak :: "string \<Rightarrow> state \<Rightarrow> state" where
  "speak text st = st\<lparr>sinks := sinks st @ [Speak text]\<rparr>"

definition playChime :: "state \<Rightarrow> state" where
  "playChime st = st\<lparr>sinks := sinks st @ [Chime]\<rparr>"

definition commitMessage :: "clock \<Rightarrow> string \<Rightarrow> msg_type \<Rightarrow> state \<Rightarrow> state" where
  "commitMessage clk message type st =
     (let now = t_commit clk;
          st1 = st\<lparr>isLocked := True, lockEndTime := Some (now + LOCK_TIME)\<rparr>;
          st2 = playChime st1;
          st3 = (if soundEnabled st2 then
                   (let timeSinceLastTTS = now - lastTTSTime st2;
                        isSameMessage = (Some message = lastTTSMessage st2);
                        timeSinceRepeat =
                          now - (if lastTTSTime st2 = 0 then 0 else lastTTSTime st2)
                    in if timeSinceLastTTS \<ge> TTS_COOLDOWN \<and>
                          (\<not> isSameMessage \<or> timeSinceRepeat \<ge> REPEAT_COOLDOWN)
                       then (speak message st2)\<lparr>lastTTSTime := now,
                                                 lastTTSMessage := Some message\<rparr>
                       else st2)
                 else st2)
      in (addToLog clk message type st3)\<lparr>stability := DisplayLocked\<rparr>)"

text \<open>The click handlers of the mood and need buttons.\<close>

definition moodButtonClick :: "clock \<Rightarrow> string \<Rightarrow> state \<Rightarrow> state" where
  "moodButtonClick clk mood st = commitMessage clk mood Mood st"

definition needButtonClick :: "clock \<Rightarrow> string \<Rightarrow> state \<Rightarrow> state" where
  "needButtonClick clk need st = commitMessage clk (''Needs '' @ need) Need st"

subsection \<open>Suggestion engine\<close>

definition generateSuggestion :: "state \<Rightarrow> string option" where
  "generateSuggestion st =
     (let hasSound = (soundLevel st > SOUND_SPIKE_THRESHOLD) in
      if headGesture st = Nod then Some ''Yes''
      else if headGesture st = Shake then Some ''No''
      else if mouthOpenScore st > MOUTH_OPEN_THRESHOLD \<and> hasSound then Some ''Needs attention''
      else if movementScore st > 0.5 \<and> hasSound then Some ''Needs a break''
      else if smileScore st > 0.08 then Some ''Feeling happy''
      else if sad (emotionScores st) > 0.15 then Some ''Feeling sad''
      else if surprised (emotionScores st) > 0.2 then Some ''Surprised''
      else None)"

definition updateSignalTone :: "state \<Rightarrow> state" where
  "updateSignalTone st =
     (let hasSound = (soundLevel st > SOUND_SPIKE_THRESHOLD);
          t = (if currentEmotion st = Happy \<and> happy (emotionScores st) > 0.3
                 then TonePositive
               else if currentEmotion st = Sad \<and> sad (emotionScores st) > 0.3
                 then ToneSad
               else if currentEmotion st = Surprised \<and> surprised (emotionScores st) > 0.3
                 then ToneSurprised
               else if smileScore st > SMILE_THRESHOLD then TonePositive
               else if (movementScore st > 0.5 \<and> hasSound) \<or>
                       (headGesture st = Shake \<and> hasSound) then ToneDistress
               else ToneNeutral)
      in st\<lparr>signalTone := t\<rparr>)"

text \<open>The three branches after the lock check. A suggestion is a string or
  \<^verbatim>\<open>null\<close>; the test \<^verbatim>\<open>suggestion && ...\<close> fails on \<^verbatim>\<open>null\<close> and on the empty
  string.\<close>

definition updateSuggestion :: "clock \<Rightarrow> state \<Rightarrow> state" where
  "updateSuggestion clk st =
     (let now = t_suggest clk in
      if isLocked st \<and> now < toNumber (lockEndTime st)
      then st\<lparr>stability := DisplayLocked\<rparr>
      else
        (let st0 = (if isLocked st then st\<lparr>isLocked := False\<rparr> else st);
             suggestion = generateSuggestion st0;
             st1 = st0\<lparr>suggestionText :=
                        (case suggestion of None \<Rightarrow> dash
                         | Some s \<Rightarrow> if s = [] then dash else s)\<rparr>;
             st2 = updateSignalTone st1;
             cleared = st2\<lparr>currentSuggestion := None, suggestionStartTime := None,
                           stability := DisplayWaiting\<rparr>
         in (case suggestion of
              None \<Rightarrow> cleared
            | Some s \<Rightarrow>
                if s \<noteq> [] \<and> Some s \<noteq> currentSuggestion st2 then
                  st2\<lparr>currentSuggestion := Some s, suggestionStartTime := Some now,
                       stability := DisplayStabilizing None\<rparr>
                else if s \<noteq> [] \<and> Some s = currentSuggestion st2 then
                  (let elapsed = now - toNumber (suggestionStartTime st2) in
                   if elapsed \<ge> STABILITY_TIME then
                     (commitMessage clk s Signal st2)
                        \<lparr>currentSuggestion := None, suggestionStartTime := None\<rparr>
                   else
                     st2\<lparr>stability := DisplayStabilizing
                            (Some (round (real_of_int elapsed / real_of_int STABILITY_TIME * 100)))\<rparr>)
                else cleared)))"

subsection \<open>Head gesture\<close>

definition direction :: "real \<Rightarrow> real \<Rightarrow> int" where
  "direction threshold d = (if d > threshold then 1 else if d < - threshold then -1 else 0)"

text \<open>The \<^verbatim>\<open>for\<close> loop of \<^verbatim>\<open>detectHeadGesture\<close> over consecutive points; the
  accumulator is \<open>(xChanges, yChanges, lastXDir, lastYDir)\<close>.\<close>

fun gesture_loop :: "nose_sample list \<Rightarrow> nat \<times> nat \<times> int \<times> int \<Rightarrow> nat \<times> nat \<times> int \<times> int" where
  "gesture_loop (p # q # rest) (xChanges, yChanges, lastXDir, lastYDir) =
     (let dx = nx q - nx p;
          dy = ny q - ny p;
          xDir = direction SHAKE_THRESHOLD dx;
          yDir = direction NOD_THRESHOLD dy;
          xChanges' = (if xDir \<noteq> 0 \<and> xDir \<noteq> lastXDir \<and> lastXDir \<noteq> 0
                       then xChanges + 1 else xChanges);
          yChanges' = (if yDir \<noteq> 0 \<and> yDir \<noteq> lastYDir \<and> lastYDir \<noteq> 0
                       then yChanges + 1 else yChanges);
          lastXDir' = (if xDir \<noteq> 0 then xDir else lastXDir);
          lastYDir' = (if yDir \<noteq> 0 then yDir else lastYDir)
      in gesture_loop (q # rest) (xChanges', yChanges', lastXDir', lastYDir'))"
| "gesture_loop ps acc = acc"

definition detectHeadGesture :: "state \<Rightarrow> gesture" where
  "detectHeadGesture st =
     (if length (noseHistory st) < GESTURE_FRAMES then Still
      else
        (case gesture_loop (slice_last GESTURE_FRAMES (noseHistory st)) (0, 0, 0, 0) of
           (xChanges, yChanges, lastXDir, lastYDir) \<Rightarrow>
             if yChanges \<ge> 2 then Nod
             else if xChanges \<ge> 2 then Shake
             else Still))"

text \<open>The nose-tip block that ends both \<^verbatim>\<open>processResults\<close> (lines 603-621) and
  \<^verbatim>\<open>detectSmileFromLandmarks\<close> (lines 702-712): push the sample, keep the last
  500 ms, and once ten samples are there classify the gesture and score the
  movement between the oldest and the newest sample.\<close>

definition trackNose :: "point \<Rightarrow> clock \<Rightarrow> state \<Rightarrow> state" where
  "trackNose noseTip clk st =
     (let pushed = noseHistory st @ [\<lparr> nx = px noseTip, ny = py noseTip, ntime = t_nose clk \<rparr>];
          cutoff = t_cutoff clk - 500;
          kept = filter (\<lambda>p. ntime p > cutoff) pushed;
          st1 = st\<lparr>noseHistory := kept\<rparr>
      in if length kept \<ge> GESTURE_FRAMES then
           (let st2 = st1\<lparr>headGesture := detectHeadGesture st1\<rparr>;
                first = kept ! 0;
                lst = kept ! (length kept - 1);
                dx = \<bar>nx lst - nx first\<bar>;
                dy = \<bar>ny lst - ny first\<bar>
            in st2\<lparr>movementScore := min 1 ((dx + dy) * 5)\<rparr>)
         else st1)"

subsection \<open>Signal extraction\<close>

text \<open>\<^verbatim>\<open>results.faceBlendshapes?.[0]?.categories || []\<close>: the categories of the
  first face, empty when there are none.\<close>

definition blendshapes_of :: "detection \<Rightarrow> category list" where
  "blendshapes_of r = (case faceBlendshapes r of [] \<Rightarrow> [] | cs # other \<Rightarrow> cs)"

definition getBlendshape :: "category list \<Rightarrow> string \<Rightarrow> real" where
  "getBlendshape blendshapes name =
     (case find (\<lambda>b. categoryName b = name) blendshapes of
        None \<Rightarrow> 0 | Some shape \<Rightarrow> score shape)"

text \<open>The fallback for a face without blendshapes. The four mouth landmarks are
  dereferenced (lines 673-674) before the first write to the state, the nose tip
  (line 703) after the scores and the emotion are written.\<close>

definition detectSmileFromLandmarks :: "landmarks \<Rightarrow> clock \<Rightarrow> state \<Rightarrow> outcome" where
  "detectSmileFromLandmarks lms clk st =
     (case lms 291 of None \<Rightarrow> Thrown TypeError st | Some rightCorner \<Rightarrow>
     (case lms 61 of None \<Rightarrow> Thrown TypeError st | Some leftCorner \<Rightarrow>
     (case lms 14 of None \<Rightarrow> Thrown TypeError st | Some lowerLip \<Rightarrow>
     (case lms 13 of None \<Rightarrow> Thrown TypeError st | Some upperLip \<Rightarrow>
        (let mouthWidth = \<bar>px rightCorner - px leftCorner\<bar>;
             mouthHeight = \<bar>py lowerLip - py upperLip\<bar>;
             mouthRatio = mouthWidth / (mouthHeight + 0.001);
             mouthCenterY = (py upperLip + py lowerLip) / 2;
             cornerLiftLeft = mouthCenterY - py leftCorner;
             cornerLiftRight = mouthCenterY - py rightCorner;
             avgCornerLift = (cornerLiftLeft + cornerLiftRight) / 2;
             smile = max 0 (min 1 ((mouthRatio - 2) / 3 + avgCornerLift * 10));
             mouthOpen = max 0 (min 1 (mouthHeight * 5));
             sadness = max 0 (- avgCornerLift * 10);
             st1 = st\<lparr>smileScore := smile, mouthOpenScore := mouthOpen,
                       emotionScores := \<lparr> happy = smile, sad = sadness,
                                          surprised = mouthOpen * 0.5,
                                          neutral = max 0 (1 - smile - sadness) \<rparr>\<rparr>;
             st2 = st1\<lparr>currentEmotion :=
                        (if smileScore st1 > 0.2 then Happy
                         else if sad (emotionScores st1) > 0.2 then Sad
                         else Neutral)\<rparr>
         in (case lms 4 of None \<Rightarrow> Thrown TypeError st2 | Some noseTip \<Rightarrow>
              Normal (updateSuggestion clk (trackNose noseTip clk st2))))))))"

text \<open>\<^verbatim>\<open>processResults\<close>: no face zeroes the frame; a face without blendshapes
  goes to the fallback; otherwise the blendshape path, which dereferences the
  four mouth landmarks (lines 543-544) before its first write to the state.\<close>

definition processResults :: "detection option \<Rightarrow> clock \<Rightarrow> state \<Rightarrow> outcome" where
  "processResults results clk st =
     (let noFace = st\<lparr>smileScore := 0, mouthOpenScore := 0, movementScore := 0,
                      headGesture := Still, currentEmotion := Neutral,
                      emotionScores := \<lparr> happy = 0, sad = 0, surprised = 0, neutral = 1 \<rparr>\<rparr>
      in (case results of None \<Rightarrow> Normal noFace | Some r \<Rightarrow>
         (case faceLandmarks r of [] \<Rightarrow> Normal noFace | lms # other_faces \<Rightarrow>
           (let blendshapes = blendshapes_of r in
            if blendshapes = [] then detectSmileFromLandmarks lms clk st
            else
              (let smileLeft = getBlendshape blendshapes ''mouthSmileLeft'';
                   smileRight = getBlendshape blendshapes ''mouthSmileRight'';
                   blendshapeSmile = (smileLeft + smileRight) / 2
               in
               (case lms 291 of None \<Rightarrow> Thrown TypeError st | Some rightCorner \<Rightarrow>
               (case lms 61 of None \<Rightarrow> Thrown TypeError st | Some leftCorner \<Rightarrow>
               (case lms 14 of None \<Rightarrow> Thrown TypeError st | Some lowerLip \<Rightarrow>
               (case lms 13 of None \<Rightarrow> Thrown TypeError st | Some upperLip \<Rightarrow>
                 (let mouthWidth = \<bar>px rightCorner - px leftCorner\<bar>;
                      mouthHeight = \<bar>py lowerLip - py upperLip\<bar>;
                      mouthRatio = mouthWidth / (mouthHeight + 0.001);
                      mouthCenterY = (py upperLip + py lowerLip) / 2;
                      avgCornerLift =
                        ((mouthCenterY - py leftCorner) + (mouthCenterY - py rightCorner)) / 2;
                      landmarkSmile =
                        max 0 (min 1 ((mouthRatio - 2.5) / 2 + avgCornerLift * 15));
                      st1 = st\<lparr>smileScore := max blendshapeSmile landmarkSmile\<rparr>;
                      frownLeft = getBlendshape blendshapes ''mouthFrownLeft'';
                      frownRight = getBlendshape blendshapes ''mouthFrownRight'';
                      frownScore = (frownLeft + frownRight) / 2;
                      browDownLeft = getBlendshape blendshapes ''browDownLeft'';
                      browDownRight = getBlendshape blendshapes ''browDownRight'';
                      browInnerUp = getBlendshape blendshapes ''browInnerUp'';
                      browOuterUpLeft = getBlendshape blendshapes ''browOuterUpLeft'';
                      browOuterUpRight = getBlendshape blendshapes ''browOuterUpRight'';
                      st2 = st1\<lparr>browScore := (browInnerUp + browOuterUpLeft + browOuterUpRight) / 3\<rparr>;
                      browDown = (browDownLeft + browDownRight) / 2;
                      eyeWideLeft = getBlendshape blendshapes ''eyeWideLeft'';
                      eyeWideRight = getBlendshape blendshapes ''eyeWideRight'';
                      st3 = st2\<lparr>eyeOpenScore := (eyeWideLeft + eyeWideRight) / 2\<rparr>;
                      jawOpen = getBlendshape blendshapes ''jawOpen'';
                      st4 = st3\<lparr>mouthOpenScore := jawOpen\<rparr>;
                      happiness = min 1 (smileScore st4 * 2);
                      sadness = min 1 (frownScore * 1.5 + browDown * 0.5);
                      surprise = min 1 (browScore st4 * 0.8 + eyeOpenScore st4 * 0.8 + jawOpen * 0.4);
                      st5 = st4\<lparr>emotionScores :=
                                 \<lparr> happy = happiness, sad = sadness, surprised = surprise,
                                   neutral = max 0 (1 - happiness - sadness - surprise) \<rparr>\<rparr>;
                      st6 = st5\<lparr>currentEmotion :=
                                 (if smileScore st5 > 0.1 then Happy
                                  else if sad (emotionScores st5) > 0.15 then Sad
                                  else if surprised (emotionScores st5) > 0.2 then Surprised
                                  else Neutral)\<rparr>
                  in (case lms 4 of None \<Rightarrow> Thrown TypeError st6 | Some noseTip \<Rightarrow>
                       Normal (updateSuggestion clk (trackNose noseTip clk st6)))))))))))))"

text \<open>One animation frame of \<^verbatim>\<open>detectFace\<close>. The \<^verbatim>\<open>try\<close> block holds the call of
  the landmarker, which may throw, and \<^verbatim>\<open>processResults\<close>; the \<^verbatim>\<open>catch\<close> logs and
  goes on, so whatever was written before a throw stays written.\<close>

definition detectFace :: "video \<Rightarrow> perception \<Rightarrow> clock \<Rightarrow> state \<Rightarrow> outcome" where
  "detectFace v p clk st =
     (if \<not> cameraRunning st then Normal st
      else if \<not> faceLandmarker st then Normal st
      else if readyState v \<ge> 2 \<and> currentTime v \<noteq> lastVideoTime st then
        (let st1 = st\<lparr>lastVideoTime := currentTime v\<rparr> in
         (case p of
            DetectThrows \<Rightarrow> Normal st1
          | Detected results \<Rightarrow>
              (case processResults results clk st1 of
                 Normal s \<Rightarrow> Normal s
               | Thrown e s \<Rightarrow> Normal s)))
      else Normal st)"

subsection \<open>Stopping the camera and the microphone\<close>

definition stopCamera :: "state \<Rightarrow> state" where
  "stopCamera st =
     st\<lparr>cameraRunning := False, smileScore := 0, mouthOpenScore := 0,
         movementScore := 0, headGesture := Still\<rparr>"

definition stopMic :: "state \<Rightarrow> state" where
  "stopMic st = st\<lparr>micRunning := False, soundLevel := 0\<rparr>"

subsection \<open>Runs of the program\<close>

text \<open>A commit is a call of \<^verbatim>\<open>commitMessage\<close>, and each call plays the chime once:
  the commits so far are the chimes in the trace.\<close>

definition commits :: "state \<Rightarrow> nat" where
  "commits st = count_list (sinks st) Chime"

text \<open>Between two evaluation ticks the extractor and the microphone monitor
  overwrite the signal fields. A \<open>frame\<close> holds the values they leave for the
  next tick; \<open>run_ticks\<close> writes each frame and then runs \<open>updateSuggestion\<close> at
  that tick's clock.\<close>

record frame =
  f_soundLevel :: real
  f_smileScore :: real
  f_mouthOpenScore :: real
  f_movementScore :: real
  f_headGesture :: gesture
  f_currentEmotion :: emotion
  f_emotionScores :: emotion_scores

definition set_frame :: "frame \<Rightarrow> state \<Rightarrow> state" where
  "set_frame f st =
     st\<lparr>soundLevel := f_soundLevel f, smileScore := f_smileScore f,
         mouthOpenScore := f_mouthOpenScore f, movementScore := f_movementScore f,
         headGesture := f_headGesture f, currentEmotion := f_currentEmotion f,
         emotionScores := f_emotionScores f\<rparr>"

fun run_ticks :: "(clock \<times> frame) list \<Rightarrow> state \<Rightarrow> state" where
  "run_ticks [] st = st"
| "run_ticks ((clk, f) # rest) st = run_ticks rest (updateSuggestion clk (set_frame f st))"

text \<open>A handler in which every read of the clock returns the same instant.\<close>

definition clock_at :: "int \<Rightarrow> clock" where
  "clock_at t = \<lparr> t_nose = t, t_cutoff = t, t_suggest = t, t_commit = t,
                  t_entry_id = t, t_entry_iso = t \<rparr>"

text \<open>A sequence of insertions into the log, oldest first.\<close>

fun addAll :: "(clock \<times> string \<times> msg_type) list \<Rightarrow> state \<Rightarrow> state" where
  "addAll [] st = st"
| "addAll ((clk, message, type) # rest) st = addAll rest (addToLog clk message type st)"

subsection \<open>The specification's formulas\<close>

text \<open>The ordered rules of the suggestion engine as the specification lists
  them, over the seven inputs it names.\<close>

definition rule_engine :: "gesture \<Rightarrow> real \<Rightarrow> real \<Rightarrow> real \<Rightarrow> real \<Rightarrow> real \<Rightarrow> real \<Rightarrow> string option" where
  "rule_engine gest mouthOpen movement smile sadScore surprisedScore sound =
     (if gest = Nod then Some ''Yes''
      else if gest = Shake then Some ''No''
      else if mouthOpen > 0.15 \<and> sound > 0.4 then Some ''Needs attention''
      else if movement > 0.5 \<and> sound > 0.4 then Some ''Needs a break''
      else if smile > 0.08 then Some ''Feeling happy''
      else if sadScore > 0.15 then Some ''Feeling sad''
      else if surprisedScore > 0.2 then Some ''Surprised''
      else None)"

definition clamp01 :: "real \<Rightarrow> real" where
  "clamp01 x = max 0 (min 1 x)"

text \<open>The mouth geometry of the landmark estimator: height between the lips,
  width over height (the code adds 0.001 to the height), and the lift of the
  corners above the centre of the mouth.\<close>

definition mouth_height :: "point \<Rightarrow> point \<Rightarrow> real" where
  "mouth_height upperLip lowerLip = \<bar>py lowerLip - py upperLip\<bar>"

definition mouth_ratio :: "point \<Rightarrow> point \<Rightarrow> point \<Rightarrow> point \<Rightarrow> real" where
  "mouth_ratio leftCorner rightCorner upperLip lowerLip =
     \<bar>px rightCorner - px leftCorner\<bar> / (mouth_height upperLip lowerLip + 0.001)"

definition corner_lift :: "point \<Rightarrow> point \<Rightarrow> point \<Rightarrow> point \<Rightarrow> real" where
  "corner_lift leftCorner rightCorner upperLip lowerLip =
     (let centre = (py upperLip + py lowerLip) / 2
      in ((centre - py leftCorner) + (centre - py rightCorner)) / 2)"

subsection \<open>Concrete inputs\<close>

text \<open>Two frames for the instances below: a smile in a quiet room, and a nod
  with an open mouth, much movement and loud sound.\<close>

definition smile_frame :: frame where
  "smile_frame = \<lparr> f_soundLevel = 0.1, f_smileScore = 0.5, f_mouthOpenScore = 0,
       f_movementScore = 0, f_headGesture = Still, f_currentEmotion = Happy,
       f_emotionScores = \<lparr> happy = 1, sad = 0, surprised = 0, neutral = 0 \<rparr> \<rparr>"

definition nod_frame :: frame where
  "nod_frame = \<lparr> f_soundLevel = 0.9, f_smileScore = 0, f_mouthOpenScore = 0.8,
       f_movementScore = 0.9, f_headGesture = Nod, f_currentEmotion = Neutral,
       f_emotionScores = \<lparr> happy = 0, sad = 0, surprised = 0, neutral = 1 \<rparr> \<rparr>"

text \<open>A full array of 478 landmarks with the five that the code reads set as
  given and every other one at the centre of the image, and the same array cut
  off after its first 100 entries (so that landmark 291 is missing).\<close>

definition face_landmarks :: "point \<Rightarrow> point \<Rightarrow> point \<Rightarrow> point \<Rightarrow> point \<Rightarrow> landmarks" where
  "face_landmarks leftCorner rightCorner upperLip lowerLip noseTip =
     (\<lambda>i. if i = 61 then Some leftCorner
          else if i = 291 then Some rightCorner
          else if i = 13 then Some upperLip
          else if i = 14 then Some lowerLip
          else if i = 4 then Some noseTip
          else if i < 478 then Some \<lparr> px = 0.5, py = 0.5 \<rparr>
          else None)"

definition truncated :: "landmarks \<Rightarrow> landmarks" where
  "truncated lms = (\<lambda>i. if i < 100 then lms i else None)"

text \<open>A landmark array in which the entry of the nose tip is missing.\<close>

definition noseless :: "landmarks \<Rightarrow> landmarks" where
  "noseless lms = lms(4 := None)"

text \<open>A closed mouth whose corners sit 0.12 of the image height below its
  centre, and a slightly open mouth with level corners.\<close>

definition frown_face :: landmarks where
  "frown_face = face_landmarks \<lparr> px = 0.3, py = 0.62 \<rparr> \<lparr> px = 0.7, py = 0.62 \<rparr>
                  \<lparr> px = 0.5, py = 0.49 \<rparr> \<lparr> px = 0.5, py = 0.51 \<rparr> \<lparr> px = 0.5, py = 0.3 \<rparr>"

definition level_face :: landmarks where
  "level_face = face_landmarks \<lparr> px = 0.2, py = 0.5 \<rparr> \<lparr> px = 0.8, py = 0.5 \<rparr>
                  \<lparr> px = 0.5, py = 0.4 \<rparr> \<lparr> px = 0.5, py = 0.599 \<rparr> \<lparr> px = 0.5, py = 0.3 \<rparr>"

definition no_blendshapes :: "landmarks \<Rightarrow> detection" where
  "no_blendshapes lms = \<lparr> faceLandmarks = [lms], faceBlendshapes = [] \<rparr>"

definition jaw_open_only :: "landmarks \<Rightarrow> detection" where
  "jaw_open_only lms =
     \<lparr> faceLandmarks = [lms],
       faceBlendshapes = [[\<lparr> categoryName = ''jawOpen'', score = 0.3 \<rparr>]] \<rparr>"

definition fresh_video :: video where
  "fresh_video = \<lparr> readyState = 4, currentTime = 0.5 \<rparr>"

text \<open>The state while the camera runs and the patient smiles.\<close>

definition watching :: state where
  "watching = set_frame smile_frame (initial_state\<lparr>cameraRunning := True, faceLandmarker := True\<rparr>)"

section \<open>Properties\<close>

subsection \<open>What a log insertion and a commit leave alone\<close>

lemma addToLog_fields:
  "sinks (addToLog clk m ty st) = sinks st"
  "lastTTSTime (addToLog clk m ty st) = lastTTSTime st"
  "lastTTSMessage (addToLog clk m ty st) = lastTTSMessage st"
  "soundEnabled (addToLog clk m ty st) = soundEnabled st"
  "isLocked (addToLog clk m ty st) = isLocked st"
  "lockEndTime (addToLog clk m ty st) = lockEndTime st"
  by (simp_all add: addToLog_def savePatientLog_def Let_def)

lemma commitMessage_sinks:
  "sinks (commitMessage clk m ty st) =
     sinks st @ Chime #
       (if soundEnabled st \<and> t_commit clk - lastTTSTime st \<ge> 4000 \<and>
           (Some m \<noteq> lastTTSMessage st \<or> t_commit clk - lastTTSTime st \<ge> 10000)
        then [Speak m] else [])"
  by (auto simp add: commitMessage_def addToLog_fields playChime_def speak_def
      Let_def TTS_COOLDOWN_def REPEAT_COOLDOWN_def)

lemma commitMessage_tts:
  "lastTTSTime (commitMessage clk m ty st) =
     (if soundEnabled st \<and> t_commit clk - lastTTSTime st \<ge> 4000 \<and>
         (Some m \<noteq> lastTTSMessage st \<or> t_commit clk - lastTTSTime st \<ge> 10000)
      then t_commit clk else lastTTSTime st)"
  "lastTTSMessage (commitMessage clk m ty st) =
     (if soundEnabled st \<and> t_commit clk - lastTTSTime st \<ge> 4000 \<and>
         (Some m \<noteq> lastTTSMessage st \<or> t_commit clk - lastTTSTime st \<ge> 10000)
      then Some m else lastTTSMessage st)"
  "soundEnabled (commitMessage clk m ty st) = soundEnabled st"
  by (auto simp add: commitMessage_def addToLog_fields playChime_def speak_def
      Let_def TTS_COOLDOWN_def REPEAT_COOLDOWN_def)

subsection \<open>The rule engine\<close>

text \<open>C3. \<open>generateSuggestion\<close> reads seven fields of the state and nothing else:
  the head gesture, the mouth-open, movement and smile scores, the sad and
  surprised emotion scores and the sound level. On them it is the ordered
  first-match list of the specification (nod, shake, attention, break, happy,
  sad, surprised, else nothing). In particular a nod gives \<^verbatim>\<open>Yes\<close> whatever the
  other fields hold.\<close>

theorem rule_engine_priority:
  "generateSuggestion st =
     rule_engine (headGesture st) (mouthOpenScore st) (movementScore st) (smileScore st)
        (sad (emotionScores st)) (surprised (emotionScores st)) (soundLevel st) \<and>
   (headGesture st = Nod \<longrightarrow> generateSuggestion st = Some ''Yes'')"
  by (simp add: generateSuggestion_def rule_engine_def Let_def
      MOUTH_OPEN_THRESHOLD_def SOUND_SPIKE_THRESHOLD_def)

theorem rule_engine_priority_witness:
  "headGesture (initial_state\<lparr>headGesture := Nod, smileScore := 1,
                              mouthOpenScore := 1, soundLevel := 1\<rparr>) = Nod \<and>
   generateSuggestion (initial_state\<lparr>headGesture := Nod, smileScore := 1,
                                      mouthOpenScore := 1, soundLevel := 1\<rparr>) = Some ''Yes''"
  using rule_engine_priority
    [of "initial_state\<lparr>headGesture := Nod, smileScore := 1,
                       mouthOpenScore := 1, soundLevel := 1\<rparr>"]
  by (simp add: rule_engine_def)

subsection \<open>Commits and the lock\<close>

text \<open>C10. Every call of \<open>commitMessage\<close>, whatever the state (a lock of an earlier
  commit may still be running), leaves the machine locked until 4000 ms after
  the time the call read, which lies in the future of that time. The commit is
  not rejected: the chime is played once more and the message heads the log. The
  mood and need buttons call \<open>commitMessage\<close> directly, so the same holds for a
  click.\<close>

theorem commit_always_relocks:
  "isLocked (commitMessage clk m ty st) \<and>
   lockEndTime (commitMessage clk m ty st) = Some (t_commit clk + 4000) \<and>
   t_commit clk < toNumber (lockEndTime (commitMessage clk m ty st)) \<and>
   commits (commitMessage clk m ty st) = commits st + 1 \<and>
   take 1 (conversationLog (commitMessage clk m ty st)) = [new_entry clk m ty st] \<and>
   isLocked (moodButtonClick clk mood st) \<and>
   lockEndTime (moodButtonClick clk mood st) = Some (t_commit clk + 4000) \<and>
   isLocked (needButtonClick clk need st) \<and>
   lockEndTime (needButtonClick clk need st) = Some (t_commit clk + 4000)"
  by (simp add: commitMessage_def moodButtonClick_def needButtonClick_def addToLog_def
      savePatientLog_def playChime_def speak_def commits_def new_entry_def Let_def
      LOCK_TIME_def MAX_LOG_ITEMS_def)

theorem commit_always_relocks_witness:
  "isLocked (initial_state\<lparr>isLocked := True, lockEndTime := Some 9000\<rparr>) \<and>
   isLocked (moodButtonClick (clock_at 6000) ''Feeling tired''
              (initial_state\<lparr>isLocked := True, lockEndTime := Some 9000\<rparr>)) \<and>
   lockEndTime (moodButtonClick (clock_at 6000) ''Feeling tired''
              (initial_state\<lparr>isLocked := True, lockEndTime := Some 9000\<rparr>)) = Some 10000"
  using commit_always_relocks
    [where clk = "clock_at 6000" and mood = "''Feeling tired''"
       and st = "initial_state\<lparr>isLocked := True, lockEndTime := Some 9000\<rparr>"]
  by (simp add: clock_at_def)

subsection \<open>Speech\<close>

text \<open>C6. With sound enabled, a commit of message \<open>m\<close> at time \<open>now\<close> calls
  \<open>speak\<close> exactly when \<open>now - lastTTSTime\<close> is at least 4000 and either \<open>m\<close>
  differs from \<open>lastTTSMessage\<close> or \<open>now - lastTTSTime\<close> is at least 10000. When
  it speaks, \<open>lastTTSTime\<close> and \<open>lastTTSMessage\<close> become \<open>now\<close> and \<open>m\<close>; when it
  does not, both stay. So after a commit that spoke, the same message committed
  again less than 10000 ms later is not spoken, and committed 10000 ms later or
  more it is spoken again.\<close>

theorem speech_suppression_policy:
  assumes "soundEnabled st"
  shows "let now = t_commit clk;
             due = (now - lastTTSTime st \<ge> 4000 \<and>
                    (Some m \<noteq> lastTTSMessage st \<or> now - lastTTSTime st \<ge> 10000));
             st' = commitMessage clk m ty st
         in sinks st' = sinks st @ Chime # (if due then [Speak m] else []) \<and>
            lastTTSTime st' = (if due then now else lastTTSTime st) \<and>
            lastTTSMessage st' = (if due then Some m else lastTTSMessage st) \<and>
            (due \<longrightarrow>
               (t_commit clk' - now < 10000 \<longrightarrow>
                  sinks (commitMessage clk' m ty' st') = sinks st' @ [Chime]) \<and>
               (t_commit clk' - now \<ge> 10000 \<longrightarrow>
                  sinks (commitMessage clk' m ty' st') = sinks st' @ [Chime, Speak m]))"
  using assms
  by (simp add: commitMessage_sinks commitMessage_tts Let_def)

theorem speech_suppression_policy_witness:
  "soundEnabled initial_state \<and>
   sinks (commitMessage (clock_at 5000) ''Yes'' Signal initial_state) = [Chime, Speak ''Yes''] \<and>
   sinks (commitMessage (clock_at 9000) ''Yes'' Signal
            (commitMessage (clock_at 5000) ''Yes'' Signal initial_state))
     = [Chime, Speak ''Yes'', Chime] \<and>
   sinks (commitMessage (clock_at 15000) ''Yes'' Signal
            (commitMessage (clock_at 5000) ''Yes'' Signal initial_state))
     = [Chime, Speak ''Yes'', Chime, Speak ''Yes'']"
  using speech_suppression_policy
    [where st = initial_state and clk = "clock_at 5000" and m = "''Yes''"
       and ty = Signal and clk' = "clock_at 9000" and ty' = Signal]
    speech_suppression_policy
    [where st = initial_state and clk = "clock_at 5000" and m = "''Yes''"
       and ty = Signal and clk' = "clock_at 15000" and ty' = Signal]
  by (simp add: initial_state_def clock_at_def Let_def)

subsection \<open>The conversation log\<close>

lemma addToLog_log:
  "conversationLog (addToLog clk m ty st) =
     take MAX_LOG_ITEMS (new_entry clk m ty st # conversationLog st)"
  by (simp add: addToLog_def savePatientLog_def Let_def)

lemma addToLog_patient:
  "currentPatient (addToLog clk m ty st) = currentPatient st"
  by (simp add: addToLog_def savePatientLog_def Let_def)

lemma addToLog_key: "log_key (addToLog clk m ty st) = log_key st"
  by (simp add: log_key_def addToLog_patient)

lemma new_entry_addToLog:
  "new_entry clk' m' ty' (addToLog clk m ty st) = new_entry clk' m' ty' st"
  by (simp add: new_entry_def addToLog_patient)

lemma slice_last_short: "length xs \<le> n \<Longrightarrow> slice_last n xs = xs"
  by (simp add: slice_last_def)

lemma addToLog_persisted:
  "localStorage (addToLog clk m ty st) (log_key st) =
     Some (conversationLog (addToLog clk m ty st))"
  by (simp add: addToLog_def savePatientLog_def Let_def slice_last_short log_key_def)

lemma take_append_take: "take n (xs @ take n ys) = take n (xs @ ys)"
  by (simp add: min_def)

lemma addAll_patient: "currentPatient (addAll ins st) = currentPatient st"
  by (induction ins arbitrary: st) (auto simp add: addToLog_patient)

lemma addAll_key: "log_key (addAll ins st) = log_key st"
  by (simp add: log_key_def addAll_patient)

lemma addAll_snoc:
  "addAll (ins @ [(clk, m, ty)]) st = addToLog clk m ty (addAll ins st)"
  by (induction ins arbitrary: st) auto

lemma addAll_log_bounded:
  "length (conversationLog st) \<le> MAX_LOG_ITEMS \<Longrightarrow>
   conversationLog (addAll ins st) =
     take MAX_LOG_ITEMS
       (rev (map (\<lambda>(clk, m, ty). new_entry clk m ty st) ins) @ conversationLog st)"
proof (induction ins arbitrary: st)
  case Nil
  then show ?case by simp
next
  case (Cons a ins)
  obtain clk m ty where a: "a = (clk, m, ty)" by (cases a)
  let ?st' = "addToLog clk m ty st"
  have len: "length (conversationLog ?st') \<le> MAX_LOG_ITEMS"
    by (simp add: addToLog_log)
  have "conversationLog (addAll (a # ins) st) = conversationLog (addAll ins ?st')"
    by (simp add: a)
  also have "\<dots> = take MAX_LOG_ITEMS
      (rev (map (\<lambda>(clk, m, ty). new_entry clk m ty st) ins) @ conversationLog ?st')"
    using Cons.IH [OF len] by (simp add: new_entry_addToLog)
  also have "\<dots> = take MAX_LOG_ITEMS
      (rev (map (\<lambda>(clk, m, ty). new_entry clk m ty st) ins) @
        new_entry clk m ty st # conversationLog st)"
    by (simp only: addToLog_log take_append_take)
  finally show ?case by (simp add: a)
qed

lemma addAll_log:
  assumes "ins \<noteq> []"
  shows "conversationLog (addAll ins st) =
     take MAX_LOG_ITEMS
       (rev (map (\<lambda>(clk, m, ty). new_entry clk m ty st) ins) @ conversationLog st)"
proof -
  obtain clk m ty rest where ins: "ins = (clk, m, ty) # rest"
    using assms by (cases ins) auto
  let ?st' = "addToLog clk m ty st"
  have len: "length (conversationLog ?st') \<le> MAX_LOG_ITEMS"
    by (simp add: addToLog_log)
  have "conversationLog (addAll ins st) = take MAX_LOG_ITEMS
      (rev (map (\<lambda>(clk, m, ty). new_entry clk m ty st) rest) @ conversationLog ?st')"
    using addAll_log_bounded [OF len, of rest] by (simp add: ins new_entry_addToLog)
  also have "\<dots> = take MAX_LOG_ITEMS
      (rev (map (\<lambda>(clk, m, ty). new_entry clk m ty st) rest) @
        new_entry clk m ty st # conversationLog st)"
    by (simp only: addToLog_log take_append_take)
  finally show ?thesis by (simp add: ins)
qed

lemma addAll_persisted:
  assumes "ins \<noteq> []"
  shows "localStorage (addAll ins st) (log_key st) = Some (conversationLog (addAll ins st))"
proof -
  obtain front clk m ty where ins: "ins = front @ [(clk, m, ty)]"
    using assms by (cases ins rule: rev_cases) auto
  show ?thesis
    using addToLog_persisted [of clk m ty "addAll front st"]
    by (simp add: ins addAll_snoc addAll_key)
qed

lemma clearLog_persisted:
  "localStorage (clearLog True st) (log_key st) = Some (conversationLog (clearLog True st))"
  by (simp add: clearLog_def savePatientLog_def slice_last_def log_key_def)

text \<open>C7. After any non-empty sequence of insertions the log holds the newest
  50 of all entries (the inserted ones, newest first, before what the log held),
  and the copy in storage under the patient's key equals the log; the same
  holds after the log is cleared. Starting from an empty log, its length after
  \<open>n\<close> insertions is the smaller of \<open>n\<close> and 50.\<close>

theorem log_keeps_newest_fifty:
  "(ins \<noteq> [] \<longrightarrow>
      conversationLog (addAll ins st) =
        take 50 (rev (map (\<lambda>(clk, m, ty). new_entry clk m ty st) ins) @ conversationLog st) \<and>
      localStorage (addAll ins st) (log_key st) = Some (conversationLog (addAll ins st))) \<and>
   (conversationLog st = [] \<longrightarrow>
      conversationLog (addAll ins st) =
        take 50 (rev (map (\<lambda>(clk, m, ty). new_entry clk m ty st) ins)) \<and>
      length (conversationLog (addAll ins st)) = min (length ins) 50) \<and>
   localStorage (clearLog True st) (log_key st) = Some (conversationLog (clearLog True st))"
proof -
  have bounded: "conversationLog st = [] \<Longrightarrow>
      conversationLog (addAll ins st) =
        take 50 (rev (map (\<lambda>(clk, m, ty). new_entry clk m ty st) ins))"
    using addAll_log_bounded [of st ins] by (simp add: MAX_LOG_ITEMS_def)
  have general: "ins \<noteq> [] \<Longrightarrow> conversationLog (addAll ins st) =
        take 50 (rev (map (\<lambda>(clk, m, ty). new_entry clk m ty st) ins) @ conversationLog st)"
    using addAll_log [of ins st] by (simp add: MAX_LOG_ITEMS_def)
  show ?thesis
    using bounded general addAll_persisted [of ins st] clearLog_persisted [of st]
    by (simp add: min.commute)
qed

theorem log_keeps_newest_fifty_witness:
  "replicate 51 (clock_at 7, ''Yes'', Signal) \<noteq> [] \<and>
   conversationLog initial_state = [] \<and>
   length (conversationLog (addAll (replicate 51 (clock_at 7, ''Yes'', Signal)) initial_state)) = 50 \<and>
   conversationLog (addAll (replicate 51 (clock_at 7, ''Yes'', Signal)) initial_state) =
     replicate 50 (new_entry (clock_at 7) ''Yes'' Signal initial_state) \<and>
   localStorage (addAll (replicate 51 (clock_at 7, ''Yes'', Signal)) initial_state)
       (log_key initial_state) =
     Some (replicate 50 (new_entry (clock_at 7) ''Yes'' Signal initial_state))"
  using log_keeps_newest_fifty [of "replicate 51 (clock_at 7, ''Yes'', Signal)" initial_state]
  by (simp add: initial_state_def)

subsection \<open>Evaluation ticks\<close>

lemma updateSignalTone_fields:
  "currentSuggestion (updateSignalTone st) = currentSuggestion st"
  "suggestionStartTime (updateSignalTone st) = suggestionStartTime st"
  "isLocked (updateSignalTone st) = isLocked st"
  "lockEndTime (updateSignalTone st) = lockEndTime st"
  "sinks (updateSignalTone st) = sinks st"
  "suggestionText (updateSignalTone st) = suggestionText st"
  by (simp_all add: updateSignalTone_def Let_def)

lemma commitMessage_fields:
  "isLocked (commitMessage clk m ty st) = True"
  "lockEndTime (commitMessage clk m ty st) = Some (t_commit clk + 4000)"
  "suggestionText (commitMessage clk m ty st) = suggestionText st"
  by (simp_all add: commitMessage_def addToLog_def savePatientLog_def playChime_def
      speak_def Let_def LOCK_TIME_def)

lemma commits_commitMessage: "commits (commitMessage clk m ty st) = commits st + 1"
  by (simp add: commits_def commitMessage_sinks)

lemma generateSuggestion_unlock:
  "generateSuggestion (st\<lparr>isLocked := b\<rparr>) = generateSuggestion st"
  by (simp add: generateSuggestion_def Let_def cong: if_cong)

lemma generateSuggestion_set_frame:
  "generateSuggestion (set_frame f st) = generateSuggestion (set_frame f st')"
  by (simp add: generateSuggestion_def set_frame_def Let_def cong: if_cong)

lemma set_frame_fields:
  "currentSuggestion (set_frame f st) = currentSuggestion st"
  "suggestionStartTime (set_frame f st) = suggestionStartTime st"
  "isLocked (set_frame f st) = isLocked st"
  "lockEndTime (set_frame f st) = lockEndTime st"
  "sinks (set_frame f st) = sinks st"
  "suggestionText (set_frame f st) = suggestionText st"
  by (simp_all add: set_frame_def)

lemma locked_tick:
  "isLocked st \<Longrightarrow> t_suggest clk < toNumber (lockEndTime st) \<Longrightarrow>
   updateSuggestion clk st = st\<lparr>stability := DisplayLocked\<rparr>"
  by (simp add: updateSuggestion_def Let_def)

lemma expired_tick:
  "isLocked st \<Longrightarrow> \<not> t_suggest clk < toNumber (lockEndTime st) \<Longrightarrow>
   updateSuggestion clk st = updateSuggestion clk (st\<lparr>isLocked := False\<rparr>)"
  by (simp add: updateSuggestion_def Let_def)

lemma tick_none:
  "\<not> isLocked st \<Longrightarrow> generateSuggestion st = None \<Longrightarrow>
   updateSuggestion clk st =
     (updateSignalTone (st\<lparr>suggestionText := dash\<rparr>))
       \<lparr>currentSuggestion := None, suggestionStartTime := None, stability := DisplayWaiting\<rparr>"
  by (simp add: updateSuggestion_def Let_def)

lemma tick_new:
  "\<not> isLocked st \<Longrightarrow> generateSuggestion st = Some s \<Longrightarrow> s \<noteq> [] \<Longrightarrow>
   currentSuggestion st \<noteq> Some s \<Longrightarrow>
   updateSuggestion clk st =
     (updateSignalTone (st\<lparr>suggestionText := s\<rparr>))
       \<lparr>currentSuggestion := Some s, suggestionStartTime := Some (t_suggest clk),
        stability := DisplayStabilizing None\<rparr>"
  by (auto simp add: updateSuggestion_def Let_def updateSignalTone_fields)

lemma tick_wait:
  "\<not> isLocked st \<Longrightarrow> generateSuggestion st = Some s \<Longrightarrow> s \<noteq> [] \<Longrightarrow>
   currentSuggestion st = Some s \<Longrightarrow>
   t_suggest clk - toNumber (suggestionStartTime st) < 800 \<Longrightarrow>
   updateSuggestion clk st =
     (updateSignalTone (st\<lparr>suggestionText := s\<rparr>))
       \<lparr>stability := DisplayStabilizing
          (Some (round (real_of_int (t_suggest clk - toNumber (suggestionStartTime st)) /
                        real_of_int STABILITY_TIME * 100)))\<rparr>"
  by (simp add: updateSuggestion_def Let_def updateSignalTone_fields STABILITY_TIME_def)

lemma tick_commit:
  "\<not> isLocked st \<Longrightarrow> generateSuggestion st = Some s \<Longrightarrow> s \<noteq> [] \<Longrightarrow>
   currentSuggestion st = Some s \<Longrightarrow>
   t_suggest clk - toNumber (suggestionStartTime st) \<ge> 800 \<Longrightarrow>
   updateSuggestion clk st =
     (commitMessage clk s Signal (updateSignalTone (st\<lparr>suggestionText := s\<rparr>)))
       \<lparr>currentSuggestion := None, suggestionStartTime := None\<rparr>"
  by (simp add: updateSuggestion_def Let_def updateSignalTone_fields STABILITY_TIME_def)

lemma run_ticks_append: "run_ticks (xs @ ys) st = run_ticks ys (run_ticks xs st)"
  by (induction xs arbitrary: st) auto

lemma run_locked:
  "isLocked st \<Longrightarrow> lockEndTime st = Some e \<Longrightarrow>
   list_all (\<lambda>(c, f). t_suggest c < e) ticks \<Longrightarrow>
   sinks (run_ticks ticks st) = sinks st \<and> isLocked (run_ticks ticks st) \<and>
   lockEndTime (run_ticks ticks st) = Some e \<and>
   currentSuggestion (run_ticks ticks st) = currentSuggestion st \<and>
   suggestionStartTime (run_ticks ticks st) = suggestionStartTime st"
proof (induction ticks arbitrary: st)
  case Nil
  then show ?case by simp
next
  case (Cons a ticks)
  obtain c f where a: "a = (c, f)" by (cases a)
  let ?st' = "updateSuggestion c (set_frame f st)"
  have now: "t_suggest c < e" and rest: "list_all (\<lambda>(c, f). t_suggest c < e) ticks"
    using Cons.prems(3) by (simp_all add: a)
  have step: "?st' = (set_frame f st)\<lparr>stability := DisplayLocked\<rparr>"
    using Cons.prems(1,2) now by (simp add: locked_tick set_frame_fields)
  have "isLocked ?st'" "lockEndTime ?st' = Some e"
    using Cons.prems(1,2) by (simp_all add: step set_frame_fields)
  from Cons.IH [OF this rest] show ?case
    by (simp add: a) (simp add: step set_frame_fields)
qed

lemma run_waiting:
  "\<not> isLocked st \<Longrightarrow> currentSuggestion st = Some s \<Longrightarrow> suggestionStartTime st = Some t0 \<Longrightarrow>
   s \<noteq> [] \<Longrightarrow>
   list_all (\<lambda>(c, f). generateSuggestion (set_frame f base) = Some s) ticks \<Longrightarrow>
   list_all (\<lambda>(c, f). t_suggest c - t0 < 800) ticks \<Longrightarrow>
   sinks (run_ticks ticks st) = sinks st \<and> \<not> isLocked (run_ticks ticks st) \<and>
   currentSuggestion (run_ticks ticks st) = Some s \<and>
   suggestionStartTime (run_ticks ticks st) = Some t0"
proof (induction ticks arbitrary: st)
  case Nil
  then show ?case by simp
next
  case (Cons a ticks)
  obtain c f where a: "a = (c, f)" by (cases a)
  let ?fr = "set_frame f st"
  let ?st' = "updateSuggestion c ?fr"
  have gen: "generateSuggestion ?fr = Some s"
    using Cons.prems(5) generateSuggestion_set_frame [of f st base] by (simp add: a)
  have early: "t_suggest c - toNumber (suggestionStartTime ?fr) < 800"
    using Cons.prems(3,6) by (simp add: a set_frame_fields)
  have step: "?st' = (updateSignalTone (?fr\<lparr>suggestionText := s\<rparr>))
       \<lparr>stability := DisplayStabilizing
          (Some (round (real_of_int (t_suggest c - toNumber (suggestionStartTime ?fr)) /
                        real_of_int STABILITY_TIME * 100)))\<rparr>"
    using Cons.prems(1,2,4) gen early by (intro tick_wait) (simp_all add: set_frame_fields)
  have inv: "\<not> isLocked ?st'" "currentSuggestion ?st' = Some s"
    "suggestionStartTime ?st' = Some t0" "sinks ?st' = sinks st"
    using Cons.prems(1,2,3)
    by (simp_all add: step updateSignalTone_fields set_frame_fields)
  have rest: "list_all (\<lambda>(c, f). generateSuggestion (set_frame f base) = Some s) ticks"
    "list_all (\<lambda>(c, f). t_suggest c - t0 < 800) ticks"
    using Cons.prems(5,6) by (simp_all add: a)
  from Cons.IH [OF inv(1,2,3) Cons.prems(4) rest] show ?case
    by (simp add: a inv(4))
qed

lemma commitMessage_log_head:
  "take 1 (conversationLog (commitMessage clk m ty st)) = [new_entry clk m ty st]"
  by (simp add: commitMessage_def addToLog_def savePatientLog_def playChime_def speak_def
      new_entry_def Let_def MAX_LOG_ITEMS_def)

lemma commits_update [simp]:
  "commits (st\<lparr>currentSuggestion := a\<rparr>) = commits st"
  "commits (st\<lparr>suggestionStartTime := b\<rparr>) = commits st"
  "commits (st\<lparr>stability := c\<rparr>) = commits st"
  "commits (st\<lparr>suggestionText := d\<rparr>) = commits st"
  "commits (st\<lparr>isLocked := e\<rparr>) = commits st"
  "commits (updateSignalTone st) = commits st"
  "commits (set_frame f st) = commits st"
  by (simp_all add: commits_def updateSignalTone_fields set_frame_fields)

text \<open>C1. A run of evaluation ticks that all yield the same non-empty
  suggestion \<open>s\<close>, started while the machine is not locked and holds another
  candidate (or none): the first tick takes \<open>s\<close> as candidate, the ticks less
  than 800 ms after it commit nothing, and the first tick 800 ms or more after
  it commits \<open>s\<close>, once. That commit clears \<open>currentSuggestion\<close> and
  \<open>suggestionStartTime\<close> and locks the machine until 4000 ms after the time the
  commit read. Ticks before that time, whatever their signals, add no commit, so
  the run has exactly one.\<close>

theorem sustained_suggestion_commits_once:
  assumes unlocked: "\<not> isLocked st"
    and fresh: "currentSuggestion st \<noteq> Some s"
    and nonempty: "s \<noteq> []"
    and same: "list_all (\<lambda>(c, f). generateSuggestion (set_frame f st) = Some s)
                 ((c_start, f_start) # waiting @ [(c_commit, f_commit)])"
    and early: "list_all (\<lambda>(c, f). t_suggest c - t_suggest c_start < 800) waiting"
    and late: "t_suggest c_commit - t_suggest c_start \<ge> 800"
    and lock: "list_all (\<lambda>(c, f). t_suggest c < t_commit c_commit + 4000) locked"
  shows "commits (run_ticks ((c_start, f_start) # waiting) st) = commits st \<and>
         commits (run_ticks ((c_start, f_start) # waiting @ [(c_commit, f_commit)]) st) = commits st + 1 \<and>
         map entry_message (take 1 (conversationLog
             (run_ticks ((c_start, f_start) # waiting @ [(c_commit, f_commit)]) st))) = [s] \<and>
         currentSuggestion (run_ticks ((c_start, f_start) # waiting @ [(c_commit, f_commit)]) st) = None \<and>
         suggestionStartTime (run_ticks ((c_start, f_start) # waiting @ [(c_commit, f_commit)]) st) = None \<and>
         isLocked (run_ticks ((c_start, f_start) # waiting @ [(c_commit, f_commit)]) st) \<and>
         lockEndTime (run_ticks ((c_start, f_start) # waiting @ [(c_commit, f_commit)]) st) = Some (t_commit c_commit + 4000) \<and>
         commits (run_ticks ((c_start, f_start) # waiting @ [(c_commit, f_commit)] @ locked) st) = commits st + 1"
proof -
  let ?t0 = "t_suggest c_start"
  let ?st1 = "updateSuggestion c_start (set_frame f_start st)"
  let ?st2 = "run_ticks waiting ?st1"
  let ?fr = "set_frame f_commit ?st2"
  let ?st3 = "updateSuggestion c_commit ?fr"
  have gen0: "generateSuggestion (set_frame f_start st) = Some s"
    and genw: "list_all (\<lambda>(c, f). generateSuggestion (set_frame f st) = Some s) waiting"
    and genk: "generateSuggestion (set_frame f_commit st) = Some s"
    using same by simp_all
  have step1: "?st1 = (updateSignalTone ((set_frame f_start st)\<lparr>suggestionText := s\<rparr>))
       \<lparr>currentSuggestion := Some s, suggestionStartTime := Some ?t0,
        stability := DisplayStabilizing None\<rparr>"
    using unlocked fresh nonempty gen0 by (intro tick_new) (simp_all add: set_frame_fields)
  have inv1: "\<not> isLocked ?st1" "currentSuggestion ?st1 = Some s"
    "suggestionStartTime ?st1 = Some ?t0" "sinks ?st1 = sinks st"
    using unlocked by (simp_all add: step1 updateSignalTone_fields set_frame_fields)
  have inv2: "sinks ?st2 = sinks ?st1 \<and> \<not> isLocked ?st2 \<and>
      currentSuggestion ?st2 = Some s \<and> suggestionStartTime ?st2 = Some ?t0"
    using run_waiting [OF inv1(1,2,3) nonempty genw early] .
  have genk': "generateSuggestion ?fr = Some s"
    using genk generateSuggestion_set_frame [of f_commit ?st2 st] by simp
  have step3: "?st3 = (commitMessage c_commit s Signal (updateSignalTone (?fr\<lparr>suggestionText := s\<rparr>)))
       \<lparr>currentSuggestion := None, suggestionStartTime := None\<rparr>"
    using inv2 nonempty genk' late by (intro tick_commit) (simp_all add: set_frame_fields)
  have c2: "commits ?st2 = commits st"
    using inv2 inv1(4) by (simp add: commits_def)
  have c3: "commits ?st3 = commits st + 1"
    by (simp add: step3 commits_commitMessage c2)
  have f3: "isLocked ?st3" "lockEndTime ?st3 = Some (t_commit c_commit + 4000)"
    "currentSuggestion ?st3 = None" "suggestionStartTime ?st3 = None"
    by (simp_all add: step3 commitMessage_fields)
  have l3: "map entry_message (take 1 (conversationLog ?st3)) = [s]"
    using commitMessage_log_head
      [of c_commit s Signal "updateSignalTone (?fr\<lparr>suggestionText := s\<rparr>)"]
    by (simp add: step3 new_entry_def)
  have c4: "commits (run_ticks locked ?st3) = commits ?st3"
    using run_locked [OF f3(1,2) lock] by (simp add: commits_def)
  show ?thesis
    using c2 c3 f3 l3 c4 by (simp add: run_ticks_append)
qed

theorem sustained_suggestion_commits_once_witness:
  "generateSuggestion (set_frame smile_frame initial_state) = Some ''Feeling happy'' \<and>
   generateSuggestion (set_frame nod_frame initial_state) = Some ''Yes'' \<and>
   commits (run_ticks [(clock_at 1000, smile_frame), (clock_at 1400, smile_frame),
                       (clock_at 1800, smile_frame)] initial_state) = commits initial_state + 1 \<and>
   lockEndTime (run_ticks [(clock_at 1000, smile_frame), (clock_at 1400, smile_frame),
                       (clock_at 1800, smile_frame)] initial_state) = Some 5800 \<and>
   commits (run_ticks [(clock_at 1000, smile_frame), (clock_at 1400, smile_frame),
                       (clock_at 1800, smile_frame), (clock_at 3000, nod_frame),
                       (clock_at 5799, nod_frame)] initial_state) = commits initial_state + 1"
proof -
  have g: "generateSuggestion (set_frame smile_frame initial_state) = Some ''Feeling happy''"
    by (simp add: generateSuggestion_def set_frame_def smile_frame_def
        MOUTH_OPEN_THRESHOLD_def SOUND_SPIKE_THRESHOLD_def)
  have n: "generateSuggestion (set_frame nod_frame initial_state) = Some ''Yes''"
    by (simp add: generateSuggestion_def set_frame_def nod_frame_def)
  have i: "\<not> isLocked initial_state" "currentSuggestion initial_state \<noteq> Some ''Feeling happy''"
    by (simp_all add: initial_state_def)
  show ?thesis
    using g n sustained_suggestion_commits_once
      [where st = initial_state and s = "''Feeling happy''"
         and c_start = "clock_at 1000" and f_start = smile_frame
         and waiting = "[(clock_at 1400, smile_frame)]"
         and c_commit = "clock_at 1800" and f_commit = smile_frame
         and locked = "[(clock_at 3000, nod_frame), (clock_at 5799, nod_frame)]", OF i]
    by (simp add: clock_at_def)
qed

lemma unlocked_tick_text:
  "\<not> isLocked st \<Longrightarrow>
   suggestionText (updateSuggestion clk st) =
     (case generateSuggestion st of None \<Rightarrow> dash | Some s \<Rightarrow> if s = [] then dash else s)"
  by (simp add: updateSuggestion_def Let_def updateSignalTone_fields commitMessage_fields
      split: option.splits)

lemma unlocked_tick_lock_iff:
  "\<not> isLocked st \<Longrightarrow>
   isLocked (updateSuggestion clk st) = (commits (updateSuggestion clk st) = commits st + 1)"
  by (simp add: updateSuggestion_def Let_def updateSignalTone_fields commitMessage_fields
      commits_commitMessage split: option.splits)

text \<open>C2. A tick of a locked machine before \<open>lockEndTime\<close> only repaints the
  lock indicator, whatever signals the frame holds: no suggestion is evaluated
  (the suggestion text and the candidate stay) and nothing is committed. A tick
  at or after \<open>lockEndTime\<close> is the tick of the unlocked machine: \<open>isLocked\<close> is
  cleared and the rule engine is evaluated on this same tick (the suggestion text
  shows its result); the machine is locked after it only if this tick itself
  committed.\<close>

theorem locked_ticks_are_frozen:
  assumes "isLocked st"
  shows "(t_suggest clk < toNumber (lockEndTime st) \<longrightarrow>
            updateSuggestion clk (set_frame f st) = (set_frame f st)\<lparr>stability := DisplayLocked\<rparr> \<and>
            commits (updateSuggestion clk (set_frame f st)) = commits st \<and>
            isLocked (updateSuggestion clk (set_frame f st)) \<and>
            lockEndTime (updateSuggestion clk (set_frame f st)) = lockEndTime st \<and>
            currentSuggestion (updateSuggestion clk (set_frame f st)) = currentSuggestion st \<and>
            suggestionStartTime (updateSuggestion clk (set_frame f st)) = suggestionStartTime st \<and>
            suggestionText (updateSuggestion clk (set_frame f st)) = suggestionText st) \<and>
         (\<not> t_suggest clk < toNumber (lockEndTime st) \<longrightarrow>
            updateSuggestion clk (set_frame f st) =
              updateSuggestion clk ((set_frame f st)\<lparr>isLocked := False\<rparr>) \<and>
            suggestionText (updateSuggestion clk (set_frame f st)) =
              (case generateSuggestion (set_frame f st) of
                 None \<Rightarrow> dash | Some s \<Rightarrow> if s = [] then dash else s) \<and>
            (isLocked (updateSuggestion clk (set_frame f st)) \<longleftrightarrow>
               commits (updateSuggestion clk (set_frame f st)) = commits st + 1))"
proof -
  let ?fr = "set_frame f st"
  have locked: "isLocked ?fr" and until: "lockEndTime ?fr = lockEndTime st"
    using assms by (simp_all add: set_frame_fields)
  have frozen: "updateSuggestion clk ?fr = ?fr\<lparr>stability := DisplayLocked\<rparr>"
    if "t_suggest clk < toNumber (lockEndTime st)"
    using locked that by (simp add: locked_tick until)
  have expired: "updateSuggestion clk ?fr = updateSuggestion clk (?fr\<lparr>isLocked := False\<rparr>)"
    if "\<not> t_suggest clk < toNumber (lockEndTime st)"
    using locked that by (simp add: expired_tick until)
  have shown: "suggestionText (updateSuggestion clk (?fr\<lparr>isLocked := False\<rparr>)) =
      (case generateSuggestion ?fr of None \<Rightarrow> dash | Some s \<Rightarrow> if s = [] then dash else s)"
    using unlocked_tick_text [of "?fr\<lparr>isLocked := False\<rparr>" clk]
    by (simp add: generateSuggestion_unlock)
  have iff: "isLocked (updateSuggestion clk (?fr\<lparr>isLocked := False\<rparr>)) =
      (commits (updateSuggestion clk (?fr\<lparr>isLocked := False\<rparr>)) = commits st + 1)"
    using unlocked_tick_lock_iff [of "?fr\<lparr>isLocked := False\<rparr>" clk] by simp
  show ?thesis
  proof (cases "t_suggest clk < toNumber (lockEndTime st)")
    case True
    then show ?thesis
      using assms by (simp add: frozen set_frame_fields)
  next
    case False
    then show ?thesis
      using shown iff by (simp add: expired)
  qed
qed

theorem locked_ticks_are_frozen_witness:
  "isLocked (initial_state\<lparr>isLocked := True, lockEndTime := Some 5000\<rparr>) \<and>
   commits (updateSuggestion (clock_at 4999)
              (set_frame nod_frame (initial_state\<lparr>isLocked := True, lockEndTime := Some 5000\<rparr>)))
     = commits (initial_state\<lparr>isLocked := True, lockEndTime := Some 5000\<rparr>) \<and>
   suggestionText (updateSuggestion (clock_at 4999)
              (set_frame nod_frame (initial_state\<lparr>isLocked := True, lockEndTime := Some 5000\<rparr>)))
     = dash \<and>
   suggestionText (updateSuggestion (clock_at 5000)
              (set_frame nod_frame (initial_state\<lparr>isLocked := True, lockEndTime := Some 5000\<rparr>)))
     = ''Yes''"
proof -
  let ?st = "initial_state\<lparr>isLocked := True, lockEndTime := Some 5000\<rparr>"
  have locked: "isLocked ?st"
    by simp
  have nod: "generateSuggestion (set_frame nod_frame ?st) = Some ''Yes''"
    by (simp add: generateSuggestion_def set_frame_def nod_frame_def)
  have before: "t_suggest (clock_at 4999) < toNumber (lockEndTime ?st)"
    and after: "\<not> t_suggest (clock_at 5000) < toNumber (lockEndTime ?st)"
    by (simp_all add: clock_at_def)
  have shown: "suggestionText ?st = dash"
    by (simp add: initial_state_def)
  from locked_ticks_are_frozen [OF locked, of "clock_at 4999" nod_frame] before
  have frozen:
    "commits (updateSuggestion (clock_at 4999) (set_frame nod_frame ?st)) = commits ?st"
    "suggestionText (updateSuggestion (clock_at 4999) (set_frame nod_frame ?st)) = suggestionText ?st"
    by blast+
  from locked_ticks_are_frozen [OF locked, of "clock_at 5000" nod_frame] after
  have "suggestionText (updateSuggestion (clock_at 5000) (set_frame nod_frame ?st)) =
      (case generateSuggestion (set_frame nod_frame ?st) of
         None \<Rightarrow> dash | Some s \<Rightarrow> if s = [] then dash else s)"
    by blast
  then have evaluated:
    "suggestionText (updateSuggestion (clock_at 5000) (set_frame nod_frame ?st)) = ''Yes''"
    by (simp only: nod) simp
  show ?thesis
    using locked frozen shown evaluated by (simp only:) 
qed

subsection \<open>Signal extraction\<close>

lemma commitMessage_signals:
  "smileScore (commitMessage clk m ty st) = smileScore st"
  "mouthOpenScore (commitMessage clk m ty st) = mouthOpenScore st"
  "movementScore (commitMessage clk m ty st) = movementScore st"
  "headGesture (commitMessage clk m ty st) = headGesture st"
  "currentEmotion (commitMessage clk m ty st) = currentEmotion st"
  "emotionScores (commitMessage clk m ty st) = emotionScores st"
  by (simp_all add: commitMessage_def addToLog_def savePatientLog_def playChime_def
      speak_def Let_def)

lemma updateSignalTone_signals:
  "smileScore (updateSignalTone st) = smileScore st"
  "mouthOpenScore (updateSignalTone st) = mouthOpenScore st"
  "movementScore (updateSignalTone st) = movementScore st"
  "headGesture (updateSignalTone st) = headGesture st"
  "currentEmotion (updateSignalTone st) = currentEmotion st"
  "emotionScores (updateSignalTone st) = emotionScores st"
  by (simp_all add: updateSignalTone_def Let_def)

lemma updateSuggestion_signals:
  "smileScore (updateSuggestion clk st) = smileScore st"
  "mouthOpenScore (updateSuggestion clk st) = mouthOpenScore st"
  "movementScore (updateSuggestion clk st) = movementScore st"
  "headGesture (updateSuggestion clk st) = headGesture st"
  "currentEmotion (updateSuggestion clk st) = currentEmotion st"
  "emotionScores (updateSuggestion clk st) = emotionScores st"
  by (simp_all add: updateSuggestion_def Let_def updateSignalTone_signals commitMessage_signals
      split: option.splits)

lemma trackNose_signals:
  "smileScore (trackNose p clk st) = smileScore st"
  "mouthOpenScore (trackNose p clk st) = mouthOpenScore st"
  "currentEmotion (trackNose p clk st) = currentEmotion st"
  "emotionScores (trackNose p clk st) = emotionScores st"
  by (simp_all add: trackNose_def Let_def)

lemma fallback_written:
  "smileScore (st\<lparr>smileScore := a, mouthOpenScore := b, emotionScores := e\<rparr>
                 \<lparr>currentEmotion := c\<rparr>) = a"
  "mouthOpenScore (st\<lparr>smileScore := a, mouthOpenScore := b, emotionScores := e\<rparr>
                     \<lparr>currentEmotion := c\<rparr>) = b"
  "emotionScores (st\<lparr>smileScore := a, mouthOpenScore := b, emotionScores := e\<rparr>
                    \<lparr>currentEmotion := c\<rparr>) = e"
  by simp_all

lemma blendshape_written:
  "smileScore (st\<lparr>smileScore := a\<rparr>\<lparr>browScore := b\<rparr>\<lparr>eyeOpenScore := c\<rparr>
                 \<lparr>mouthOpenScore := d\<rparr>\<lparr>emotionScores := e\<rparr>\<lparr>currentEmotion := f\<rparr>) = a"
  "mouthOpenScore (st\<lparr>smileScore := a\<rparr>\<lparr>browScore := b\<rparr>\<lparr>eyeOpenScore := c\<rparr>
                 \<lparr>mouthOpenScore := d\<rparr>\<lparr>emotionScores := e\<rparr>\<lparr>currentEmotion := f\<rparr>) = d"
  "emotionScores (st\<lparr>smileScore := a\<rparr>\<lparr>browScore := b\<rparr>\<lparr>eyeOpenScore := c\<rparr>
                 \<lparr>mouthOpenScore := d\<rparr>\<lparr>emotionScores := e\<rparr>\<lparr>currentEmotion := f\<rparr>) = e"
  by simp_all

lemma fallback_scores:
  assumes "lms 61 = Some leftCorner" "lms 291 = Some rightCorner"
    "lms 13 = Some upperLip" "lms 14 = Some lowerLip"
  shows "smileScore (state_of (detectSmileFromLandmarks lms clk st)) =
           clamp01 ((mouth_ratio leftCorner rightCorner upperLip lowerLip - 2) / 3 +
                    corner_lift leftCorner rightCorner upperLip lowerLip * 10)"
    and "mouthOpenScore (state_of (detectSmileFromLandmarks lms clk st)) =
           clamp01 (mouth_height upperLip lowerLip * 5)"
    and "sad (emotionScores (state_of (detectSmileFromLandmarks lms clk st))) =
           max 0 (- corner_lift leftCorner rightCorner upperLip lowerLip * 10)"
  by (cases "lms 4";
      simp only: detectSmileFromLandmarks_def assms Let_def option.case state_of.simps
        updateSuggestion_signals trackNose_signals fallback_written emotion_scores.simps
        clamp01_def mouth_ratio_def mouth_height_def corner_lift_def)+

lemma fallback_path:
  "faceLandmarks r = lms # faces \<Longrightarrow> blendshapes_of r = [] \<Longrightarrow>
   processResults (Some r) clk st = detectSmileFromLandmarks lms clk st"
  by (simp add: processResults_def Let_def)

lemma blendshape_scores:
  assumes "faceLandmarks r = lms # faces" "blendshapes_of r \<noteq> []"
    "lms 61 = Some leftCorner" "lms 291 = Some rightCorner"
    "lms 13 = Some upperLip" "lms 14 = Some lowerLip"
  shows "smileScore (state_of (processResults (Some r) clk st)) =
           max ((getBlendshape (blendshapes_of r) ''mouthSmileLeft'' +
                 getBlendshape (blendshapes_of r) ''mouthSmileRight'') / 2)
               (clamp01 ((mouth_ratio leftCorner rightCorner upperLip lowerLip - 2.5) / 2 +
                         corner_lift leftCorner rightCorner upperLip lowerLip * 15))"
    and "mouthOpenScore (state_of (processResults (Some r) clk st)) =
           getBlendshape (blendshapes_of r) ''jawOpen''"
  by (cases "lms 4";
      simp only: processResults_def assms Let_def option.case list.case if_False
        state_of.simps updateSuggestion_signals trackNose_signals blendshape_written
        clamp01_def mouth_ratio_def mouth_height_def corner_lift_def)+

lemma fallback_mouth_missing:
  assumes "lms 61 = None \<or> lms 291 = None \<or> lms 13 = None \<or> lms 14 = None"
  shows "detectSmileFromLandmarks lms clk st = Thrown TypeError st"
  using assms
  by (cases "lms 291"; cases "lms 61"; cases "lms 14"; cases "lms 13";
      simp only: detectSmileFromLandmarks_def option.case option.distinct simp_thms)

lemma mouth_missing_throws:
  assumes "faceLandmarks r = lms # faces"
    and "lms 61 = None \<or> lms 291 = None \<or> lms 13 = None \<or> lms 14 = None"
  shows "processResults (Some r) clk st = Thrown TypeError st"
proof (cases "blendshapes_of r = []")
  case True
  then show ?thesis
    using assms by (simp add: fallback_path fallback_mouth_missing)
next
  case False
  then show ?thesis
    using assms(2)
    by (cases "lms 291"; cases "lms 61"; cases "lms 14"; cases "lms 13";
        simp only: processResults_def assms(1) Let_def option.case list.case if_False
          option.distinct simp_thms)
qed

lemma detectFace_returns: "\<exists>s. detectFace v p clk st = Normal s"
  by (simp add: detectFace_def Let_def split: perception.splits outcome.splits)

lemma fallback_chain:
  "smileScore (st\<lparr>smileScore := a, mouthOpenScore := b, emotionScores := e\<rparr>) = a"
  "emotionScores (st\<lparr>smileScore := a, mouthOpenScore := b, emotionScores := e\<rparr>) = e"
  by simp_all

lemma blendshape_chain:
  "smileScore (st\<lparr>smileScore := a, browScore := b, eyeOpenScore := c,
                   mouthOpenScore := d\<rparr>) = a"
  "browScore (st\<lparr>smileScore := a, browScore := b, eyeOpenScore := c,
                  mouthOpenScore := d\<rparr>) = b"
  "eyeOpenScore (st\<lparr>smileScore := a, browScore := b, eyeOpenScore := c,
                     mouthOpenScore := d\<rparr>) = c"
  "smileScore (st\<lparr>smileScore := a, browScore := b, eyeOpenScore := c,
                   mouthOpenScore := d, emotionScores := e\<rparr>) = a"
  "emotionScores (st\<lparr>smileScore := a, browScore := b, eyeOpenScore := c,
                      mouthOpenScore := d, emotionScores := e\<rparr>) = e"
  by simp_all

lemma nose_missing_fallback:
  assumes "faceLandmarks r = lms # faces" "blendshapes_of r = []"
    and "lms 61 = Some leftCorner" "lms 291 = Some rightCorner"
    and "lms 13 = Some upperLip" "lms 14 = Some lowerLip" and "lms 4 = None"
  shows "processResults (Some r) clk st = Thrown TypeError
     (let smile = clamp01 ((mouth_ratio leftCorner rightCorner upperLip lowerLip - 2) / 3 +
                           corner_lift leftCorner rightCorner upperLip lowerLip * 10);
          mouthOpen = clamp01 (mouth_height upperLip lowerLip * 5);
          sadness = max 0 (- corner_lift leftCorner rightCorner upperLip lowerLip * 10)
      in st\<lparr>smileScore := smile, mouthOpenScore := mouthOpen,
            emotionScores := \<lparr> happy = smile, sad = sadness, surprised = mouthOpen * 0.5,
                               neutral = max 0 (1 - smile - sadness) \<rparr>,
            currentEmotion := (if smile > 0.2 then Happy
                               else if sadness > 0.2 then Sad else Neutral)\<rparr>)"
  by (simp only: fallback_path [OF assms(1,2)] detectSmileFromLandmarks_def assms(3-7)
      Let_def option.case fallback_chain emotion_scores.simps
      clamp01_def mouth_ratio_def mouth_height_def corner_lift_def)

lemma nose_missing_blendshape:
  assumes "faceLandmarks r = lms # faces" "blendshapes_of r \<noteq> []"
    and "lms 61 = Some leftCorner" "lms 291 = Some rightCorner"
    and "lms 13 = Some upperLip" "lms 14 = Some lowerLip" and "lms 4 = None"
  shows "processResults (Some r) clk st = Thrown TypeError
     (let shapes = blendshapes_of r;
          smile = max ((getBlendshape shapes ''mouthSmileLeft'' +
                        getBlendshape shapes ''mouthSmileRight'') / 2)
                      (clamp01 ((mouth_ratio leftCorner rightCorner upperLip lowerLip - 2.5) / 2 +
                                corner_lift leftCorner rightCorner upperLip lowerLip * 15));
          brow = (getBlendshape shapes ''browInnerUp'' + getBlendshape shapes ''browOuterUpLeft'' +
                  getBlendshape shapes ''browOuterUpRight'') / 3;
          eyeOpen = (getBlendshape shapes ''eyeWideLeft'' +
                     getBlendshape shapes ''eyeWideRight'') / 2;
          jawOpen = getBlendshape shapes ''jawOpen'';
          happiness = min 1 (smile * 2);
          sadness = min 1 ((getBlendshape shapes ''mouthFrownLeft'' +
                            getBlendshape shapes ''mouthFrownRight'') / 2 * 1.5 +
                           (getBlendshape shapes ''browDownLeft'' +
                            getBlendshape shapes ''browDownRight'') / 2 * 0.5);
          surprise = min 1 (brow * 0.8 + eyeOpen * 0.8 + jawOpen * 0.4)
      in st\<lparr>smileScore := smile, browScore := brow, eyeOpenScore := eyeOpen,
            mouthOpenScore := jawOpen,
            emotionScores := \<lparr> happy = happiness, sad = sadness, surprised = surprise,
                               neutral = max 0 (1 - happiness - sadness - surprise) \<rparr>,
            currentEmotion := (if smile > 0.1 then Happy
                               else if sadness > 0.15 then Sad
                               else if surprise > 0.2 then Surprised else Neutral)\<rparr>)"
  by (simp only: processResults_def assms Let_def option.case list.case if_False
      blendshape_chain emotion_scores.simps
      clamp01_def mouth_ratio_def mouth_height_def corner_lift_def)

lemma detectFace_catches:
  "cameraRunning st \<Longrightarrow> faceLandmarker st \<Longrightarrow> 2 \<le> readyState v \<Longrightarrow>
   currentTime v \<noteq> lastVideoTime st \<Longrightarrow>
   detectFace v (Detected res) clk st =
     Normal (state_of (processResults res clk (st\<lparr>lastVideoTime := currentTime v\<rparr>)))"
  by (simp add: detectFace_def Let_def split: outcome.splits)

lemma fallback_keeps:
  "noseHistory (st\<lparr>smileScore := a, mouthOpenScore := b, emotionScores := e, currentEmotion := c\<rparr>) = noseHistory st"
  "headGesture (st\<lparr>smileScore := a, mouthOpenScore := b, emotionScores := e, currentEmotion := c\<rparr>) = headGesture st"
  "movementScore (st\<lparr>smileScore := a, mouthOpenScore := b, emotionScores := e, currentEmotion := c\<rparr>) = movementScore st"
  "currentSuggestion (st\<lparr>smileScore := a, mouthOpenScore := b, emotionScores := e, currentEmotion := c\<rparr>) = currentSuggestion st"
  "suggestionStartTime (st\<lparr>smileScore := a, mouthOpenScore := b, emotionScores := e, currentEmotion := c\<rparr>) = suggestionStartTime st"
  "isLocked (st\<lparr>smileScore := a, mouthOpenScore := b, emotionScores := e, currentEmotion := c\<rparr>) = isLocked st"
  "lockEndTime (st\<lparr>smileScore := a, mouthOpenScore := b, emotionScores := e, currentEmotion := c\<rparr>) = lockEndTime st"
  "suggestionText (st\<lparr>smileScore := a, mouthOpenScore := b, emotionScores := e, currentEmotion := c\<rparr>) = suggestionText st"
  "stability (st\<lparr>smileScore := a, mouthOpenScore := b, emotionScores := e, currentEmotion := c\<rparr>) = stability st"
  "sinks (st\<lparr>smileScore := a, mouthOpenScore := b, emotionScores := e, currentEmotion := c\<rparr>) = sinks st"
  "conversationLog (st\<lparr>smileScore := a, mouthOpenScore := b, emotionScores := e, currentEmotion := c\<rparr>) = conversationLog st"
  by simp_all

lemma blendshape_keeps:
  "noseHistory (st\<lparr>smileScore := a, browScore := b, eyeOpenScore := c, mouthOpenScore := d, emotionScores := e, currentEmotion := f\<rparr>) = noseHistory st"
  "headGesture (st\<lparr>smileScore := a, browScore := b, eyeOpenScore := c, mouthOpenScore := d, emotionScores := e, currentEmotion := f\<rparr>) = headGesture st"
  "movementScore (st\<lparr>smileScore := a, browScore := b, eyeOpenScore := c, mouthOpenScore := d, emotionScores := e, currentEmotion := f\<rparr>) = movementScore st"
  "currentSuggestion (st\<lparr>smileScore := a, browScore := b, eyeOpenScore := c, mouthOpenScore := d, emotionScores := e, currentEmotion := f\<rparr>) = currentSuggestion st"
  "suggestionStartTime (st\<lparr>smileScore := a, browScore := b, eyeOpenScore := c, mouthOpenScore := d, emotionScores := e, currentEmotion := f\<rparr>) = suggestionStartTime st"
  "isLocked (st\<lparr>smileScore := a, browScore := b, eyeOpenScore := c, mouthOpenScore := d, emotionScores := e, currentEmotion := f\<rparr>) = isLocked st"
  "lockEndTime (st\<lparr>smileScore := a, browScore := b, eyeOpenScore := c, mouthOpenScore := d, emotionScores := e, currentEmotion := f\<rparr>) = lockEndTime st"
  "suggestionText (st\<lparr>smileScore := a, browScore := b, eyeOpenScore := c, mouthOpenScore := d, emotionScores := e, currentEmotion := f\<rparr>) = suggestionText st"
  "stability (st\<lparr>smileScore := a, browScore := b, eyeOpenScore := c, mouthOpenScore := d, emotionScores := e, currentEmotion := f\<rparr>) = stability st"
  "sinks (st\<lparr>smileScore := a, browScore := b, eyeOpenScore := c, mouthOpenScore := d, emotionScores := e, currentEmotion := f\<rparr>) = sinks st"
  "conversationLog (st\<lparr>smileScore := a, browScore := b, eyeOpenScore := c, mouthOpenScore := d, emotionScores := e, currentEmotion := f\<rparr>) = conversationLog st"
  by simp_all

lemma nose_missing_keeps:
  assumes "faceLandmarks r = lms # faces"
    and "lms 61 = Some leftCorner" "lms 291 = Some rightCorner"
    and "lms 13 = Some upperLip" "lms 14 = Some lowerLip" and "lms 4 = None"
  shows "(\<exists>s. processResults (Some r) clk st = Thrown TypeError s) \<and>
         noseHistory (state_of (processResults (Some r) clk st)) = noseHistory st \<and>
         headGesture (state_of (processResults (Some r) clk st)) = headGesture st \<and>
         movementScore (state_of (processResults (Some r) clk st)) = movementScore st \<and>
         currentSuggestion (state_of (processResults (Some r) clk st)) = currentSuggestion st \<and>
         suggestionStartTime (state_of (processResults (Some r) clk st)) = suggestionStartTime st \<and>
         isLocked (state_of (processResults (Some r) clk st)) = isLocked st \<and>
         lockEndTime (state_of (processResults (Some r) clk st)) = lockEndTime st \<and>
         suggestionText (state_of (processResults (Some r) clk st)) = suggestionText st \<and>
         stability (state_of (processResults (Some r) clk st)) = stability st \<and>
         sinks (state_of (processResults (Some r) clk st)) = sinks st \<and>
         conversationLog (state_of (processResults (Some r) clk st)) = conversationLog st"
proof (cases "blendshapes_of r = []")
  case True
  show ?thesis
    by (simp only: nose_missing_fallback [OF assms(1) True assms(2-6)] Let_def
        state_of.simps fallback_keeps outcome.inject simp_thms)
next
  case False
  show ?thesis
    by (simp only: nose_missing_blendshape [OF assms(1) False assms(2-6)] Let_def
        state_of.simps blendshape_keeps outcome.inject simp_thms)
qed

text \<open>C4. No input makes \<open>detectFace\<close> throw: its \<^verbatim>\<open>catch\<close> swallows what the
  landmarker and \<open>processResults\<close> throw, and a frame that is processed ends in
  the state \<open>processResults\<close> had reached, thrown or not. A face whose landmark
  array lacks one of the mouth landmarks 61, 291, 13, 14 makes \<open>processResults\<close>
  throw before it has written anything, so the frame leaves the state as it was,
  the new \<open>lastVideoTime\<close> apart: the signals of the frame before stay, they are
  not zeroed. A face with the four mouth landmarks but without the nose tip 4
  makes it throw after the scores and the emotion of this frame are written:
  the state at the throw is the old state with exactly these fields replaced by
  the values of the fallback formulas (no blendshapes) or of the blendshape
  formulas. The nose history, the gesture, the movement score, the candidate and
  its start time, the lock, the suggestion text and indicator, the sinks and the
  log are as before: no suggestion is evaluated on such a frame.\<close>

theorem malformed_sample_is_swallowed:
  "(\<exists>s. detectFace v p clk st = Normal s) \<and>
   (cameraRunning st \<and> faceLandmarker st \<and> readyState v \<ge> 2 \<and>
    currentTime v \<noteq> lastVideoTime st \<longrightarrow>
      detectFace v (Detected res) clk st =
        Normal (state_of (processResults res clk (st\<lparr>lastVideoTime := currentTime v\<rparr>)))) \<and>
   (faceLandmarks r = lms # faces \<and>
    (lms 61 = None \<or> lms 291 = None \<or> lms 13 = None \<or> lms 14 = None) \<longrightarrow>
      processResults (Some r) clk st = Thrown TypeError st \<and>
      (cameraRunning st \<and> faceLandmarker st \<and> readyState v \<ge> 2 \<and>
       currentTime v \<noteq> lastVideoTime st \<longrightarrow>
         detectFace v (Detected (Some r)) clk st = Normal (st\<lparr>lastVideoTime := currentTime v\<rparr>))) \<and>
   (faceLandmarks r = lms # faces \<and> lms 61 = Some leftCorner \<and> lms 291 = Some rightCorner \<and>
    lms 13 = Some upperLip \<and> lms 14 = Some lowerLip \<and> lms 4 = None \<longrightarrow>
      (blendshapes_of r = [] \<longrightarrow>
         processResults (Some r) clk st = Thrown TypeError
           (let smile = clamp01 ((mouth_ratio leftCorner rightCorner upperLip lowerLip - 2) / 3 +
                              corner_lift leftCorner rightCorner upperLip lowerLip * 10);
             mouthOpen = clamp01 (mouth_height upperLip lowerLip * 5);
             sadness = max 0 (- corner_lift leftCorner rightCorner upperLip lowerLip * 10)
         in st\<lparr>smileScore := smile, mouthOpenScore := mouthOpen,
               emotionScores := \<lparr> happy = smile, sad = sadness, surprised = mouthOpen * 0.5,
                                  neutral = max 0 (1 - smile - sadness) \<rparr>,
               currentEmotion := (if smile > 0.2 then Happy
                                  else if sadness > 0.2 then Sad else Neutral)\<rparr>)) \<and>
      (blendshapes_of r \<noteq> [] \<longrightarrow>
         processResults (Some r) clk st = Thrown TypeError
           (let shapes = blendshapes_of r;
             smile = max ((getBlendshape shapes ''mouthSmileLeft'' +
                           getBlendshape shapes ''mouthSmileRight'') / 2)
                         (clamp01 ((mouth_ratio leftCorner rightCorner upperLip lowerLip - 2.5) / 2 +
                                   corner_lift leftCorner rightCorner upperLip lowerLip * 15));
             brow = (getBlendshape shapes ''browInnerUp'' + getBlendshape shapes ''browOuterUpLeft'' +
                     getBlendshape shapes ''browOuterUpRight'') / 3;
             eyeOpen = (getBlendshape shapes ''eyeWideLeft'' +
                        getBlendshape shapes ''eyeWideRight'') / 2;
             jawOpen = getBlendshape shapes ''jawOpen'';
             happiness = min 1 (smile * 2);
             sadness = min 1 ((getBlendshape shapes ''mouthFrownLeft'' +
                               getBlendshape shapes ''mouthFrownRight'') / 2 * 1.5 +
                              (getBlendshape shapes ''browDownLeft'' +
                               getBlendshape shapes ''browDownRight'') / 2 * 0.5);
             surprise = min 1 (brow * 0.8 + eyeOpen * 0.8 + jawOpen * 0.4)
         in st\<lparr>smileScore := smile, browScore := brow, eyeOpenScore := eyeOpen,
               mouthOpenScore := jawOpen,
               emotionScores := \<lparr> happy = happiness, sad = sadness, surprised = surprise,
                                  neutral = max 0 (1 - happiness - sadness - surprise) \<rparr>,
               currentEmotion := (if smile > 0.1 then Happy
                                  else if sadness > 0.15 then Sad
                                  else if surprise > 0.2 then Surprised else Neutral)\<rparr>)) \<and>
      (\<exists>s. processResults (Some r) clk st = Thrown TypeError s) \<and>
      noseHistory (state_of (processResults (Some r) clk st)) = noseHistory st \<and>
      headGesture (state_of (processResults (Some r) clk st)) = headGesture st \<and>
      movementScore (state_of (processResults (Some r) clk st)) = movementScore st \<and>
      currentSuggestion (state_of (processResults (Some r) clk st)) = currentSuggestion st \<and>
      suggestionStartTime (state_of (processResults (Some r) clk st)) = suggestionStartTime st \<and>
      isLocked (state_of (processResults (Some r) clk st)) = isLocked st \<and>
      lockEndTime (state_of (processResults (Some r) clk st)) = lockEndTime st \<and>
      suggestionText (state_of (processResults (Some r) clk st)) = suggestionText st \<and>
      stability (state_of (processResults (Some r) clk st)) = stability st \<and>
      sinks (state_of (processResults (Some r) clk st)) = sinks st \<and>
      conversationLog (state_of (processResults (Some r) clk st)) = conversationLog st)"
proof (intro conjI impI)
  show "\<exists>s. detectFace v p clk st = Normal s"
    by (rule detectFace_returns)
next
  assume "cameraRunning st \<and> faceLandmarker st \<and> 2 \<le> readyState v \<and>
    currentTime v \<noteq> lastVideoTime st"
  then show "detectFace v (Detected res) clk st =
      Normal (state_of (processResults res clk (st\<lparr>lastVideoTime := currentTime v\<rparr>)))"
    by (simp add: detectFace_catches)
next
  assume a: "faceLandmarks r = lms # faces \<and>
    (lms 61 = None \<or> lms 291 = None \<or> lms 13 = None \<or> lms 14 = None)"
  then show "processResults (Some r) clk st = Thrown TypeError st"
    by (simp add: mouth_missing_throws)
  assume "cameraRunning st \<and> faceLandmarker st \<and> 2 \<le> readyState v \<and>
       currentTime v \<noteq> lastVideoTime st"
  then show "detectFace v (Detected (Some r)) clk st = Normal (st\<lparr>lastVideoTime := currentTime v\<rparr>)"
    using a by (simp add: detectFace_def Let_def mouth_missing_throws)
next
  assume h: "faceLandmarks r = lms # faces \<and> lms 61 = Some leftCorner \<and>
    lms 291 = Some rightCorner \<and> lms 13 = Some upperLip \<and> lms 14 = Some lowerLip \<and>
    lms 4 = None"
  then have roles: "faceLandmarks r = lms # faces" "lms 61 = Some leftCorner"
    "lms 291 = Some rightCorner" "lms 13 = Some upperLip" "lms 14 = Some lowerLip"
    "lms 4 = None"
    by blast+
  {
    assume none: "blendshapes_of r = []"
    show "processResults (Some r) clk st = Thrown TypeError
           (let smile = clamp01 ((mouth_ratio leftCorner rightCorner upperLip lowerLip - 2) / 3 +
                              corner_lift leftCorner rightCorner upperLip lowerLip * 10);
             mouthOpen = clamp01 (mouth_height upperLip lowerLip * 5);
             sadness = max 0 (- corner_lift leftCorner rightCorner upperLip lowerLip * 10)
         in st\<lparr>smileScore := smile, mouthOpenScore := mouthOpen,
               emotionScores := \<lparr> happy = smile, sad = sadness, surprised = mouthOpen * 0.5,
                                  neutral = max 0 (1 - smile - sadness) \<rparr>,
               currentEmotion := (if smile > 0.2 then Happy
                                  else if sadness > 0.2 then Sad else Neutral)\<rparr>)"
      by (rule nose_missing_fallback [OF roles(1) none roles(2-6)])
  }
  {
    assume some: "blendshapes_of r \<noteq> []"
    show "processResults (Some r) clk st = Thrown TypeError
           (let shapes = blendshapes_of r;
             smile = max ((getBlendshape shapes ''mouthSmileLeft'' +
                           getBlendshape shapes ''mouthSmileRight'') / 2)
                         (clamp01 ((mouth_ratio leftCorner rightCorner upperLip lowerLip - 2.5) / 2 +
                                   corner_lift leftCorner rightCorner upperLip lowerLip * 15));
             brow = (getBlendshape shapes ''browInnerUp'' + getBlendshape shapes ''browOuterUpLeft'' +
                     getBlendshape shapes ''browOuterUpRight'') / 3;
             eyeOpen = (getBlendshape shapes ''eyeWideLeft'' +
                        getBlendshape shapes ''eyeWideRight'') / 2;
             jawOpen = getBlendshape shapes ''jawOpen'';
             happiness = min 1 (smile * 2);
             sadness = min 1 ((getBlendshape shapes ''mouthFrownLeft'' +
                               getBlendshape shapes ''mouthFrownRight'') / 2 * 1.5 +
                              (getBlendshape shapes ''browDownLeft'' +
                               getBlendshape shapes ''browDownRight'') / 2 * 0.5);
             surprise = min 1 (brow * 0.8 + eyeOpen * 0.8 + jawOpen * 0.4)
         in st\<lparr>smileScore := smile, browScore := brow, eyeOpenScore := eyeOpen,
               mouthOpenScore := jawOpen,
               emotionScores := \<lparr> happy = happiness, sad = sadness, surprised = surprise,
                                  neutral = max 0 (1 - happiness - sadness - surprise) \<rparr>,
               currentEmotion := (if smile > 0.1 then Happy
                                  else if sadness > 0.15 then Sad
                                  else if surprise > 0.2 then Surprised else Neutral)\<rparr>)"
      by (rule nose_missing_blendshape [OF roles(1) some roles(2-6)])
  }
  from nose_missing_keeps [OF roles, of clk st]
  show "\<exists>s. processResults (Some r) clk st = Thrown TypeError s"
    "noseHistory (state_of (processResults (Some r) clk st)) = noseHistory st"
    "headGesture (state_of (processResults (Some r) clk st)) = headGesture st"
    "movementScore (state_of (processResults (Some r) clk st)) = movementScore st"
    "currentSuggestion (state_of (processResults (Some r) clk st)) = currentSuggestion st"
    "suggestionStartTime (state_of (processResults (Some r) clk st)) = suggestionStartTime st"
    "isLocked (state_of (processResults (Some r) clk st)) = isLocked st"
    "lockEndTime (state_of (processResults (Some r) clk st)) = lockEndTime st"
    "suggestionText (state_of (processResults (Some r) clk st)) = suggestionText st"
    "stability (state_of (processResults (Some r) clk st)) = stability st"
    "sinks (state_of (processResults (Some r) clk st)) = sinks st"
    "conversationLog (state_of (processResults (Some r) clk st)) = conversationLog st"
    by blast+
qed

lemma level_face_roles:
  "level_face 61 = Some \<lparr> px = 0.2, py = 0.5 \<rparr>"
  "level_face 291 = Some \<lparr> px = 0.8, py = 0.5 \<rparr>"
  "level_face 13 = Some \<lparr> px = 0.5, py = 0.4 \<rparr>"
  "level_face 14 = Some \<lparr> px = 0.5, py = 0.599 \<rparr>"
  by (simp_all add: level_face_def face_landmarks_def)

lemma level_face_geometry:
  "mouth_ratio \<lparr> px = 0.2, py = 0.5 \<rparr> \<lparr> px = 0.8, py = 0.5 \<rparr>
      \<lparr> px = 0.5, py = 0.4 \<rparr> \<lparr> px = 0.5, py = 0.599 \<rparr> = 3"
  "corner_lift \<lparr> px = 0.2, py = 0.5 \<rparr> \<lparr> px = 0.8, py = 0.5 \<rparr>
      \<lparr> px = 0.5, py = 0.4 \<rparr> \<lparr> px = 0.5, py = 0.599 \<rparr> = - 0.0005"
  "mouth_height \<lparr> px = 0.5, py = 0.4 \<rparr> \<lparr> px = 0.5, py = 0.599 \<rparr> = 0.199"
  by (simp_all add: mouth_ratio_def corner_lift_def mouth_height_def)

theorem malformed_sample_is_swallowed_witness:
  "truncated level_face 291 = None \<and> noseless level_face 4 = None \<and>
   processResults (Some (no_blendshapes (truncated level_face))) (clock_at 1000) watching =
     Thrown TypeError watching \<and>
   detectFace fresh_video (Detected (Some (no_blendshapes (truncated level_face))))
       (clock_at 1000) watching =
     Normal (watching\<lparr>lastVideoTime := currentTime fresh_video\<rparr>) \<and>
   smileScore (state_of (processResults (Some (no_blendshapes (noseless level_face)))
       (clock_at 1000) watching)) = 197 / 600 \<and>
   mouthOpenScore (state_of (processResults (Some (jaw_open_only (noseless level_face)))
       (clock_at 1000) watching)) = 0.3 \<and>
   isLocked (state_of (processResults (Some (no_blendshapes (noseless level_face)))
       (clock_at 1000) watching)) = isLocked watching \<and>
   suggestionText (state_of (processResults (Some (no_blendshapes (noseless level_face)))
       (clock_at 1000) watching)) = suggestionText watching \<and>
   noseHistory (state_of (processResults (Some (jaw_open_only (noseless level_face)))
       (clock_at 1000) watching)) = noseHistory watching"
proof -
  let ?lc = "\<lparr> px = 0.2, py = 0.5 \<rparr>" and ?rc = "\<lparr> px = 0.8, py = 0.5 \<rparr>"
  let ?ul = "\<lparr> px = 0.5, py = 0.4 \<rparr>" and ?ll = "\<lparr> px = 0.5, py = 0.599 \<rparr>"
  have cut: "truncated level_face 291 = None"
    by (simp add: truncated_def)
  have malformed: "faceLandmarks (no_blendshapes (truncated level_face)) = truncated level_face # [] \<and>
      (truncated level_face 61 = None \<or> truncated level_face 291 = None \<or>
       truncated level_face 13 = None \<or> truncated level_face 14 = None)"
    by (simp add: no_blendshapes_def truncated_def)
  have running: "cameraRunning watching \<and> faceLandmarker watching \<and>
      2 \<le> readyState fresh_video \<and> currentTime fresh_video \<noteq> lastVideoTime watching"
    by (simp add: watching_def set_frame_def initial_state_def fresh_video_def)
  from malformed_sample_is_swallowed
    [where v = fresh_video and clk = "clock_at 1000" and st = watching
       and r = "no_blendshapes (truncated level_face)" and lms = "truncated level_face"
       and faces = "[]"]
    malformed running
  have mouth: "processResults (Some (no_blendshapes (truncated level_face))) (clock_at 1000) watching =
      Thrown TypeError watching"
    "detectFace fresh_video (Detected (Some (no_blendshapes (truncated level_face))))
       (clock_at 1000) watching =
     Normal (watching\<lparr>lastVideoTime := currentTime fresh_video\<rparr>)"
    by blast+
  have nose: "noseless level_face 4 = None"
    by (simp add: noseless_def)
  have plain: "faceLandmarks (no_blendshapes (noseless level_face)) = noseless level_face # [] \<and>
      noseless level_face 61 = Some ?lc \<and> noseless level_face 291 = Some ?rc \<and>
      noseless level_face 13 = Some ?ul \<and> noseless level_face 14 = Some ?ll \<and>
      noseless level_face 4 = None"
    by (simp add: no_blendshapes_def noseless_def level_face_roles)
  have shaped: "faceLandmarks (jaw_open_only (noseless level_face)) = noseless level_face # [] \<and>
      noseless level_face 61 = Some ?lc \<and> noseless level_face 291 = Some ?rc \<and>
      noseless level_face 13 = Some ?ul \<and> noseless level_face 14 = Some ?ll \<and>
      noseless level_face 4 = None"
    by (simp add: jaw_open_only_def noseless_def level_face_roles)
  have none: "blendshapes_of (no_blendshapes (noseless level_face)) = []"
    and some: "blendshapes_of (jaw_open_only (noseless level_face)) \<noteq> []"
    and jaw: "getBlendshape (blendshapes_of (jaw_open_only (noseless level_face))) ''jawOpen'' = 0.3"
    by (simp_all add: blendshapes_of_def no_blendshapes_def jaw_open_only_def getBlendshape_def)
  note fallback = malformed_sample_is_swallowed
    [where clk = "clock_at 1000" and st = watching
       and r = "no_blendshapes (noseless level_face)" and lms = "noseless level_face"
       and faces = "[]" and leftCorner = ?lc and rightCorner = ?rc
       and upperLip = ?ul and lowerLip = ?ll]
  note blendshape = malformed_sample_is_swallowed
    [where clk = "clock_at 1000" and st = watching
       and r = "jaw_open_only (noseless level_face)" and lms = "noseless level_face"
       and faces = "[]" and leftCorner = ?lc and rightCorner = ?rc
       and upperLip = ?ul and lowerLip = ?ll]
  from fallback plain none
  have written: "processResults (Some (no_blendshapes (noseless level_face))) (clock_at 1000) watching =
      Thrown TypeError
        (let smile = clamp01 ((mouth_ratio ?lc ?rc ?ul ?ll - 2) / 3 + corner_lift ?lc ?rc ?ul ?ll * 10);
             mouthOpen = clamp01 (mouth_height ?ul ?ll * 5);
             sadness = max 0 (- corner_lift ?lc ?rc ?ul ?ll * 10)
         in watching\<lparr>smileScore := smile, mouthOpenScore := mouthOpen,
               emotionScores := \<lparr> happy = smile, sad = sadness, surprised = mouthOpen * 0.5,
                                  neutral = max 0 (1 - smile - sadness) \<rparr>,
               currentEmotion := (if smile > 0.2 then Happy
                                  else if sadness > 0.2 then Sad else Neutral)\<rparr>)"
    by blast
  have "smileScore (state_of (processResults (Some (no_blendshapes (noseless level_face)))
       (clock_at 1000) watching)) = clamp01 ((3 - 2) / 3 + (- 0.0005) * 10)"
    by (simp only: written Let_def state_of.simps fallback_written level_face_geometry)
  then have smile: "smileScore (state_of (processResults (Some (no_blendshapes (noseless level_face)))
       (clock_at 1000) watching)) = 197 / 600"
    by (simp add: clamp01_def)
  from fallback plain
  have kept: "isLocked (state_of (processResults (Some (no_blendshapes (noseless level_face)))
       (clock_at 1000) watching)) = isLocked watching"
    "suggestionText (state_of (processResults (Some (no_blendshapes (noseless level_face)))
       (clock_at 1000) watching)) = suggestionText watching"
    by blast+
  from blendshape shaped some
  have "processResults (Some (jaw_open_only (noseless level_face))) (clock_at 1000) watching =
      Thrown TypeError
        (let shapes = blendshapes_of (jaw_open_only (noseless level_face));
             smile = max ((getBlendshape shapes ''mouthSmileLeft'' +
                           getBlendshape shapes ''mouthSmileRight'') / 2)
                         (clamp01 ((mouth_ratio ?lc ?rc ?ul ?ll - 2.5) / 2 +
                                   corner_lift ?lc ?rc ?ul ?ll * 15));
             brow = (getBlendshape shapes ''browInnerUp'' + getBlendshape shapes ''browOuterUpLeft'' +
                     getBlendshape shapes ''browOuterUpRight'') / 3;
             eyeOpen = (getBlendshape shapes ''eyeWideLeft'' +
                        getBlendshape shapes ''eyeWideRight'') / 2;
             jawOpen = getBlendshape shapes ''jawOpen'';
             happiness = min 1 (smile * 2);
             sadness = min 1 ((getBlendshape shapes ''mouthFrownLeft'' +
                               getBlendshape shapes ''mouthFrownRight'') / 2 * 1.5 +
                              (getBlendshape shapes ''browDownLeft'' +
                               getBlendshape shapes ''browDownRight'') / 2 * 0.5);
             surprise = min 1 (brow * 0.8 + eyeOpen * 0.8 + jawOpen * 0.4)
         in watching\<lparr>smileScore := smile, browScore := brow, eyeOpenScore := eyeOpen,
               mouthOpenScore := jawOpen,
               emotionScores := \<lparr> happy = happiness, sad = sadness, surprised = surprise,
                                  neutral = max 0 (1 - happiness - sadness - surprise) \<rparr>,
               currentEmotion := (if smile > 0.1 then Happy
                                  else if sadness > 0.15 then Sad
                                  else if surprise > 0.2 then Surprised else Neutral)\<rparr>)"
    by blast
  then have open_score: "mouthOpenScore (state_of (processResults
       (Some (jaw_open_only (noseless level_face))) (clock_at 1000) watching)) = 0.3"
    by (simp only: Let_def state_of.simps blendshape_written jaw)
  from blendshape shaped
  have history: "noseHistory (state_of (processResults (Some (jaw_open_only (noseless level_face)))
       (clock_at 1000) watching)) = noseHistory watching"
    by blast
  show ?thesis
    using cut nose mouth smile open_score kept history by (simp only: simp_thms)
qed

text \<open>The smile of the frame before is still there after a frame whose landmark
  array stops before the right mouth corner.\<close>

theorem malformed_sample_counterexample:
  "truncated level_face 291 = None \<and>
   smileScore (state_of (detectFace fresh_video
       (Detected (Some (no_blendshapes (truncated level_face)))) (clock_at 1000) watching)) \<noteq> 0 \<and>
   currentEmotion (state_of (detectFace fresh_video
       (Detected (Some (no_blendshapes (truncated level_face)))) (clock_at 1000) watching)) \<noteq> Neutral"
proof -
  have cut: "truncated level_face 291 = None"
    by (simp add: truncated_def)
  have thrown: "processResults (Some (no_blendshapes (truncated level_face))) clk st =
      Thrown TypeError st" for clk st
    by (rule mouth_missing_throws [where lms = "truncated level_face" and faces = "[]"])
      (simp_all add: no_blendshapes_def truncated_def)
  have running: "cameraRunning watching" "faceLandmarker watching"
    "2 \<le> readyState fresh_video" "currentTime fresh_video \<noteq> lastVideoTime watching"
    by (simp_all add: watching_def set_frame_def initial_state_def fresh_video_def)
  have kept: "detectFace fresh_video (Detected (Some (no_blendshapes (truncated level_face))))
       (clock_at 1000) watching = Normal (watching\<lparr>lastVideoTime := currentTime fresh_video\<rparr>)"
    using running by (simp add: detectFace_def Let_def thrown)
  have stale: "smileScore watching = 0.5" "currentEmotion watching = Happy"
    by (simp_all add: watching_def set_frame_def smile_frame_def)
  show ?thesis
    using cut stale by (simp add: kept)
qed

text \<open>C8. With the four mouth landmarks present, where the ratio is the mouth
  width over the mouth height plus 0.001: a face with blendshapes gets as smile
  score the larger of the blendshape average and
  \<open>clamp01 ((ratio - 2.5) / 2 + lift * 15)\<close>, and as mouth-open score the
  \<^verbatim>\<open>jawOpen\<close> blendshape; a face without blendshapes (the fallback) gets the smile
  score \<open>clamp01 ((ratio - 2) / 3 + lift * 10)\<close> and the mouth-open score
  \<open>clamp01 (height * 5)\<close>.\<close>

theorem landmark_estimator_formulas:
  assumes "faceLandmarks r = lms # faces"
    and "lms 61 = Some leftCorner" "lms 291 = Some rightCorner"
    and "lms 13 = Some upperLip" "lms 14 = Some lowerLip"
  shows "(blendshapes_of r \<noteq> [] \<longrightarrow>
            smileScore (state_of (processResults (Some r) clk st)) =
              max ((getBlendshape (blendshapes_of r) ''mouthSmileLeft'' +
                    getBlendshape (blendshapes_of r) ''mouthSmileRight'') / 2)
                  (clamp01 ((mouth_ratio leftCorner rightCorner upperLip lowerLip - 2.5) / 2 +
                            corner_lift leftCorner rightCorner upperLip lowerLip * 15)) \<and>
            mouthOpenScore (state_of (processResults (Some r) clk st)) =
              getBlendshape (blendshapes_of r) ''jawOpen'') \<and>
         (blendshapes_of r = [] \<longrightarrow>
            smileScore (state_of (processResults (Some r) clk st)) =
              clamp01 ((mouth_ratio leftCorner rightCorner upperLip lowerLip - 2) / 3 +
                       corner_lift leftCorner rightCorner upperLip lowerLip * 10) \<and>
            mouthOpenScore (state_of (processResults (Some r) clk st)) =
              clamp01 (mouth_height upperLip lowerLip * 5))"
proof (intro conjI impI)
  assume some: "blendshapes_of r \<noteq> []"
  show "smileScore (state_of (processResults (Some r) clk st)) =
      max ((getBlendshape (blendshapes_of r) ''mouthSmileLeft'' +
            getBlendshape (blendshapes_of r) ''mouthSmileRight'') / 2)
          (clamp01 ((mouth_ratio leftCorner rightCorner upperLip lowerLip - 2.5) / 2 +
                    corner_lift leftCorner rightCorner upperLip lowerLip * 15))"
    by (rule blendshape_scores(1) [OF assms(1) some assms(2-5)])
  show "mouthOpenScore (state_of (processResults (Some r) clk st)) =
      getBlendshape (blendshapes_of r) ''jawOpen''"
    by (rule blendshape_scores(2) [OF assms(1) some assms(2-5)])
next
  assume none: "blendshapes_of r = []"
  show "smileScore (state_of (processResults (Some r) clk st)) =
      clamp01 ((mouth_ratio leftCorner rightCorner upperLip lowerLip - 2) / 3 +
               corner_lift leftCorner rightCorner upperLip lowerLip * 10)"
    by (simp only: fallback_path [OF assms(1) none] fallback_scores(1) [OF assms(2-5)])
  show "mouthOpenScore (state_of (processResults (Some r) clk st)) =
      clamp01 (mouth_height upperLip lowerLip * 5)"
    by (simp only: fallback_path [OF assms(1) none] fallback_scores(2) [OF assms(2-5)])
qed

theorem landmark_estimator_formulas_witness:
  "blendshapes_of (no_blendshapes level_face) = [] \<and>
   blendshapes_of (jaw_open_only level_face) \<noteq> [] \<and>
   mouthOpenScore (state_of (processResults (Some (no_blendshapes level_face))
       (clock_at 1000) initial_state)) = clamp01 (0.199 * 5) \<and>
   mouthOpenScore (state_of (processResults (Some (jaw_open_only level_face))
       (clock_at 1000) initial_state)) = 0.3"
proof -
  have none: "blendshapes_of (no_blendshapes level_face) = []"
    and some: "blendshapes_of (jaw_open_only level_face) \<noteq> []"
    and jaw: "getBlendshape (blendshapes_of (jaw_open_only level_face)) ''jawOpen'' = 0.3"
    by (simp_all add: blendshapes_of_def no_blendshapes_def jaw_open_only_def getBlendshape_def)
  have faces: "faceLandmarks (no_blendshapes level_face) = level_face # []"
    "faceLandmarks (jaw_open_only level_face) = level_face # []"
    by (simp_all add: no_blendshapes_def jaw_open_only_def)
  from landmark_estimator_formulas [OF faces(1) level_face_roles, of "clock_at 1000" initial_state] none
  have a: "mouthOpenScore (state_of (processResults (Some (no_blendshapes level_face))
       (clock_at 1000) initial_state)) =
       clamp01 (mouth_height \<lparr> px = 0.5, py = 0.4 \<rparr> \<lparr> px = 0.5, py = 0.599 \<rparr> * 5)"
    by blast
  from landmark_estimator_formulas [OF faces(2) level_face_roles, of "clock_at 1000" initial_state] some
  have b: "mouthOpenScore (state_of (processResults (Some (jaw_open_only level_face))
       (clock_at 1000) initial_state)) =
       getBlendshape (blendshapes_of (jaw_open_only level_face)) ''jawOpen''"
    by blast
  show ?thesis
    using none some a b by (simp only: jaw level_face_geometry simp_thms)
qed

text \<open>In the fallback a level mouth of ratio 3 scores 197/600, where the formula
  with 2.5, 2 and 15 gives 97/400.\<close>

theorem fallback_smile_counterexample:
  "blendshapes_of (no_blendshapes level_face) = [] \<and>
   smileScore (state_of (processResults (Some (no_blendshapes level_face))
       (clock_at 1000) initial_state)) = 197 / 600 \<and>
   clamp01 ((mouth_ratio \<lparr> px = 0.2, py = 0.5 \<rparr> \<lparr> px = 0.8, py = 0.5 \<rparr>
               \<lparr> px = 0.5, py = 0.4 \<rparr> \<lparr> px = 0.5, py = 0.599 \<rparr> - 2.5) / 2 +
            corner_lift \<lparr> px = 0.2, py = 0.5 \<rparr> \<lparr> px = 0.8, py = 0.5 \<rparr>
               \<lparr> px = 0.5, py = 0.4 \<rparr> \<lparr> px = 0.5, py = 0.599 \<rparr> * 15) = 97 / 400 \<and>
   smileScore (state_of (processResults (Some (no_blendshapes level_face))
       (clock_at 1000) initial_state)) \<noteq>
   clamp01 ((mouth_ratio \<lparr> px = 0.2, py = 0.5 \<rparr> \<lparr> px = 0.8, py = 0.5 \<rparr>
               \<lparr> px = 0.5, py = 0.4 \<rparr> \<lparr> px = 0.5, py = 0.599 \<rparr> - 2.5) / 2 +
            corner_lift \<lparr> px = 0.2, py = 0.5 \<rparr> \<lparr> px = 0.8, py = 0.5 \<rparr>
               \<lparr> px = 0.5, py = 0.4 \<rparr> \<lparr> px = 0.5, py = 0.599 \<rparr> * 15)"
proof -
  have none: "blendshapes_of (no_blendshapes level_face) = []"
    by (simp add: blendshapes_of_def no_blendshapes_def)
  have faces: "faceLandmarks (no_blendshapes level_face) = level_face # []"
    by (simp add: no_blendshapes_def)
  have code: "smileScore (state_of (processResults (Some (no_blendshapes level_face))
       (clock_at 1000) initial_state)) = clamp01 ((3 - 2) / 3 + (- 0.0005) * 10)"
    by (simp only: fallback_path [OF faces none] fallback_scores(1) [OF level_face_roles]
        level_face_geometry)
  have code_value: "clamp01 ((3 - 2) / 3 + (- 0.0005) * 10) = 197 / 600"
    by (simp add: clamp01_def)
  have spec_value: "clamp01 ((3 - 2.5) / 2 + (- 0.0005) * 15) = 97 / 400"
    by (simp add: clamp01_def)
  show ?thesis
    by (simp only: none code level_face_geometry code_value spec_value) simp
qed

lemma frown_face_roles:
  "frown_face 61 = Some \<lparr> px = 0.3, py = 0.62 \<rparr>"
  "frown_face 291 = Some \<lparr> px = 0.7, py = 0.62 \<rparr>"
  "frown_face 13 = Some \<lparr> px = 0.5, py = 0.49 \<rparr>"
  "frown_face 14 = Some \<lparr> px = 0.5, py = 0.51 \<rparr>"
  by (simp_all add: frown_face_def face_landmarks_def)

text \<open>C5. The fallback writes \<open>max 0 (- lift * 10)\<close> as the sad score, with no
  upper bound: for a face without blendshapes whose mouth corners lie 0.12 below
  the centre of the mouth the sad score is 1.2.\<close>

theorem fallback_sad_score_exceeds_one:
  "sad (emotionScores (state_of (processResults (Some (no_blendshapes frown_face))
       (clock_at 1000) initial_state))) = 6 / 5"
proof -
  have none: "blendshapes_of (no_blendshapes frown_face) = []"
    by (simp add: blendshapes_of_def no_blendshapes_def)
  have faces: "faceLandmarks (no_blendshapes frown_face) = frown_face # []"
    by (simp add: no_blendshapes_def)
  have lift: "corner_lift \<lparr> px = 0.3, py = 0.62 \<rparr> \<lparr> px = 0.7, py = 0.62 \<rparr>
      \<lparr> px = 0.5, py = 0.49 \<rparr> \<lparr> px = 0.5, py = 0.51 \<rparr> = - 0.12"
    by (simp add: corner_lift_def)
  have "sad (emotionScores (state_of (processResults (Some (no_blendshapes frown_face))
       (clock_at 1000) initial_state))) = max 0 (- (- 0.12) * 10)"
    by (simp only: fallback_path [OF faces none] fallback_scores(3) [OF frown_face_roles] lift)
  then show ?thesis by simp
qed

text \<open>C9. \<open>stopCamera\<close> zeroes the smile, mouth-open and movement scores and the
  gesture, and \<open>stopMic\<close> the sound level; \<open>stopCamera\<close> leaves \<open>currentEmotion\<close>
  and \<open>emotionScores\<close> as they are, so after a smile the stopped camera still
  reports a happy patient.\<close>

theorem stopCamera_keeps_emotion:
  "currentEmotion (stopCamera st) = currentEmotion st \<and>
   emotionScores (stopCamera st) = emotionScores st \<and>
   smileScore (stopCamera st) = 0 \<and> mouthOpenScore (stopCamera st) = 0 \<and>
   movementScore (stopCamera st) = 0 \<and> headGesture (stopCamera st) = Still \<and>
   soundLevel (stopMic st) = 0 \<and>
   currentEmotion (stopCamera watching) = Happy \<and>
   happy (emotionScores (stopCamera watching)) = 1 \<and>
   neutral (emotionScores (stopCamera watching)) = 0"
  by (simp add: stopCamera_def stopMic_def watching_def set_frame_def smile_frame_def)

end
